theory Spec2Isabelle
  imports Complex_Main "HOL-Library.Sublist"
begin

section \<open>JavaScript values used by the session time editor\<close>

text \<open>
  A JavaScript \<open>number\<close> is modelled as a rational or \<open>NaN\<close>: arithmetic is exact (the
  rounding of IEEE doubles and the infinities are left out), \<open>NaN\<close> is absorbing, and every
  comparison with \<open>NaN\<close> is false, as in the language.
\<close>

datatype number = NaN | Num rat

fun js_add :: "number \<Rightarrow> number \<Rightarrow> number" where
  "js_add (Num a) (Num b) = Num (a + b)"
| "js_add _ _ = NaN"

fun js_sub :: "number \<Rightarrow> number \<Rightarrow> number" where
  "js_sub (Num a) (Num b) = Num (a - b)"
| "js_sub _ _ = NaN"

fun js_mul :: "number \<Rightarrow> number \<Rightarrow> number" where
  "js_mul (Num a) (Num b) = Num (a * b)"
| "js_mul _ _ = NaN"

fun js_lt :: "number \<Rightarrow> number \<Rightarrow> bool" where
  "js_lt (Num a) (Num b) = (a < b)"
| "js_lt _ _ = False"

fun js_le :: "number \<Rightarrow> number \<Rightarrow> bool" where
  "js_le (Num a) (Num b) = (a \<le> b)"
| "js_le _ _ = False"

definition js_gt :: "number \<Rightarrow> number \<Rightarrow> bool" where
  "js_gt a b = js_lt b a"

text \<open>Strict equality \<open>===\<close> on numbers: \<open>NaN\<close> equals nothing, itself included.\<close>

fun js_eq :: "number \<Rightarrow> number \<Rightarrow> bool" where
  "js_eq (Num a) (Num b) = (a = b)"
| "js_eq _ _ = False"

text \<open>\<open>Math.floor(m / 60)\<close> and \<open>m % 60\<close>; the remainder takes the sign of the dividend.\<close>

fun floor_div60 :: "number \<Rightarrow> number" where
  "floor_div60 (Num m) = Num (of_int \<lfloor>m / 60\<rfloor>)"
| "floor_div60 NaN = NaN"

definition trunc_rat :: "rat \<Rightarrow> int" where
  "trunc_rat r = (if r < 0 then - \<lfloor>- r\<rfloor> else \<lfloor>r\<rfloor>)"

fun rem60 :: "number \<Rightarrow> number" where
  "rem60 (Num m) = Num (m - 60 * of_int (trunc_rat (m / 60)))"
| "rem60 NaN = NaN"

subsection \<open>Numbers to strings\<close>

definition digit_char :: "int \<Rightarrow> char" where
  "digit_char d = char_of (48 + d)"

text \<open>The decimal digits of a non-negative integer.\<close>

function show_int :: "int \<Rightarrow> string" where
  "show_int n = (if n < 10 then [digit_char n] else show_int (n div 10) @ [digit_char (n mod 10)])"
  by pat_completeness auto
termination
  by (relation "measure nat") auto

declare show_int.simps [simp del]

text \<open>
  The digits after the decimal point, by long division. The expansion is exact when it ends
  within the given number of digits (7.5, 22.25); a longer one is cut there, where JavaScript
  prints the shortest digits that read back as the same double. Integers are printed in
  full, also from \<open>10^21\<close> on, where JavaScript switches to an exponent.
\<close>

fun frac_digits :: "nat \<Rightarrow> rat \<Rightarrow> string" where
  "frac_digits 0 f = []"
| "frac_digits (Suc k) f =
     (if f = 0 then []
      else digit_char \<lfloor>f * 10\<rfloor> # frac_digits k (f * 10 - of_int \<lfloor>f * 10\<rfloor>))"

definition show_rat :: "rat \<Rightarrow> string" where
  "show_rat r =
     (let a = \<bar>r\<bar>; ip = \<lfloor>a\<rfloor>; fp = a - of_int ip
      in (if r < 0 then ''-'' else '''') @ show_int ip
         @ (if fp = 0 then '''' else ''.'' @ frac_digits 20 fp))"

text \<open>\<open>Number.prototype.toString\<close> and the conversion a template literal applies.\<close>

fun toString :: "number \<Rightarrow> string" where
  "toString NaN = ''NaN''"
| "toString (Num r) = show_rat r"

definition padStart2 :: "string \<Rightarrow> string" where
  "padStart2 s = replicate (2 - length s) (CHR ''0'') @ s"

subsection \<open>Strings to numbers\<close>

text \<open>The ASCII white space: tab, line feed, vertical tab, form feed, carriage return, space.\<close>

definition is_ws :: "char \<Rightarrow> bool" where
  "is_ws c = (of_char c \<in> set [9, 10, 11, 12, 13, 32 :: int])"

definition trim :: "string \<Rightarrow> string" where
  "trim s = rev (dropWhile is_ws (rev (dropWhile is_ws s)))"

definition is_digit :: "char \<Rightarrow> bool" where
  "is_digit c = ((48::int) \<le> of_char c \<and> of_char c \<le> (57::int))"

definition digit_val :: "char \<Rightarrow> int" where
  "digit_val c = of_char c - 48"

text \<open>The value of a digit string, most significant digit first.\<close>

definition digits_val :: "string \<Rightarrow> int" where
  "digits_val ds = foldl (\<lambda>acc c. 10 * acc + digit_val c) 0 ds"

text \<open>
  An unsigned decimal literal: digits, optionally a point and more digits, with at least one
  digit in all. Anything else is not a number.
\<close>

definition unsigned_decimal :: "string \<Rightarrow> rat option" where
  "unsigned_decimal s =
     (let ip = takeWhile is_digit s; rest = dropWhile is_digit s
      in case rest of
           [] \<Rightarrow> if ip = [] then None else Some (of_int (digits_val ip))
         | c # fp \<Rightarrow>
             if c = CHR ''.'' \<and> list_all is_digit fp \<and> \<not> (ip = [] \<and> fp = [])
             then Some (of_int (digits_val ip) + of_int (digits_val fp) / 10 ^ length fp)
             else None)"

text \<open>
  \<open>Number(s)\<close> on a string: white space is trimmed, the empty string is 0, a sign may lead.
  Exponents, radix prefixes and \<open>Infinity\<close>, which no \<open>HH:MM\<close> text holds, are read as
  \<open>NaN\<close> here.
\<close>

definition Number_js :: "string \<Rightarrow> number" where
  "Number_js s =
     (let t = trim s
      in case t of
           [] \<Rightarrow> Num 0
         | c # r \<Rightarrow>
             if c = CHR ''-'' then (case unsigned_decimal r of None \<Rightarrow> NaN | Some v \<Rightarrow> Num (- v))
             else if c = CHR ''+'' then (case unsigned_decimal r of None \<Rightarrow> NaN | Some v \<Rightarrow> Num v)
             else (case unsigned_decimal t of None \<Rightarrow> NaN | Some v \<Rightarrow> Num v))"

section \<open>Time arithmetic\<close>

text \<open>\<open>timeStr.split(':')\<close>: the pieces between colons, at least one.\<close>

fun split_colon :: "string \<Rightarrow> string list" where
  "split_colon [] = [[]]"
| "split_colon (c # cs) =
     (if c = CHR '':'' then [] # split_colon cs
      else (case split_colon cs of p # ps \<Rightarrow> (c # p) # ps | [] \<Rightarrow> [[c]]))"

text \<open>
  \<open>minutes || 0\<close>: a second piece that is missing (\<open>undefined\<close>), \<open>NaN\<close> or zero gives 0.
\<close>

fun or_zero :: "number option \<Rightarrow> number" where
  "or_zero None = Num 0"
| "or_zero (Some NaN) = Num 0"
| "or_zero (Some (Num r)) = Num r"

definition timeToMinutes :: "string \<Rightarrow> number" where
  "timeToMinutes timeStr =
     (case map Number_js (split_colon timeStr) of
        [] \<Rightarrow> NaN
      | [hours] \<Rightarrow> js_add (js_mul hours (Num 60)) (or_zero None)
      | hours # minutes # _ \<Rightarrow> js_add (js_mul hours (Num 60)) (or_zero (Some minutes)))"

definition minutesToTime :: "number \<Rightarrow> string" where
  "minutesToTime minutes =
     (let hours = floor_div60 minutes; mins = rem60 minutes
      in padStart2 (toString hours) @ '':'' @ padStart2 (toString mins))"

section \<open>Data model\<close>

datatype session_status =
  scheduled | in_progress | completed | missed | overdue | rescheduled | skipped

text \<open>
  Optional fields are options (\<open>None\<close> is \<open>undefined\<close>); the optional flag \<open>done\<close>, only
  ever tested for truth, is a boolean whose absence is \<open>False\<close>. Fields the editor never
  reads stay in the record's extension.
\<close>

record StudySession =
  taskId :: string
  scheduledTime :: string
  startTime :: string
  endTime :: string
  allocatedHours :: number
  sessionNumber :: "number option"
  s_done :: bool
  status :: "session_status option"

record StudyPlan =
  p_id :: string
  p_date :: string
  plannedTasks :: "StudySession list"

record UserSettings =
  workDays :: "number list"
  studyWindowStartHour :: number
  studyWindowEndHour :: number

datatype commitment_type = class_c | work | appointment | other | buffer

record occurrence_mod =
  m_startTime :: "string option"
  m_endTime :: "string option"
  m_title :: "string option"
  m_type :: "commitment_type option"

text \<open>\<open>modifiedOccurrences\<close> is an object keyed by date: an association list here.\<close>

record FixedCommitment =
  c_id :: string
  c_title :: string
  c_startTime :: string
  c_endTime :: string
  recurring :: bool
  daysOfWeek :: "number list"
  specificDates :: "string list option"
  c_type :: commitment_type
  deletedOccurrences :: "string list option"
  modifiedOccurrences :: "(string \<times> occurrence_mod) list"

record SessionTimeEdit =
  e_id :: string
  e_planDate :: string
  e_taskId :: string
  e_sessionNumber :: number
  e_originalStartTime :: string
  e_newStartTime :: string
  e_newEndTime :: string
  e_editedAt :: string
  e_isTemporary :: "bool option"

text \<open>
  What \<open>localStorage\<close> holds under \<open>timepilot-session-time-edits\<close>: text that
  \<open>JSON.parse\<close> reads back as a list of edits, or text on which \<open>JSON.parse\<close> throws.
  Text that parses to a value of another shape is outside the declared type of the log and
  has no constructor here.
\<close>

datatype payload = Json "SessionTimeEdit list" | Unparsable string

text \<open>
  The editor object, together with the two pieces of the host it touches: the stored payload
  (\<open>None\<close> when the key is absent) and \<open>getDay\<close>, the weekday \<open>new Date(d).getDay()\<close>
  gives for a date string, which depends on the host's time zone (\<open>NaN\<close> for an invalid date).
\<close>

record SessionTimeEditor =
  studyPlans :: "StudyPlan list"
  fixedCommitments :: "FixedCommitment list"
  settings :: UserSettings
  sessionTimeEdits :: "SessionTimeEdit list"
  localStorage :: "payload option"
  getDay :: "string \<Rightarrow> number"

record conflict_result =
  hasConflict :: bool
  conflictsWith :: "string option"
  suggestedTimes :: "string list option"

record edit_result =
  success :: bool
  error :: "string option"

section \<open>The editor\<close>

subsection \<open>Construction and persistence\<close>

text \<open>
  The constructor reads the stored payload. An absent or empty text leaves the log empty;
  a \<open>JSON.parse\<close> that throws is caught and the log is reset to empty. The result is a
  sum so that an exception leaving the constructor would be a value \<open>Inl\<close>.
\<close>

datatype exception = SyntaxError string

definition JSON_parse :: "payload \<Rightarrow> exception + SessionTimeEdit list" where
  "JSON_parse p = (case p of Json edits \<Rightarrow> Inr edits | Unparsable txt \<Rightarrow> Inl (SyntaxError txt))"

text \<open>\<open>if (savedEdits)\<close>: the empty text is falsy; a text that parses is never empty.\<close>

definition truthy :: "payload \<Rightarrow> bool" where
  "truthy p = (case p of Unparsable txt \<Rightarrow> txt \<noteq> [] | Json _ \<Rightarrow> True)"

definition new_SessionTimeEditor ::
  "payload option \<Rightarrow> (string \<Rightarrow> number) \<Rightarrow> StudyPlan list \<Rightarrow> FixedCommitment list \<Rightarrow> UserSettings
     \<Rightarrow> exception + SessionTimeEditor" where
  "new_SessionTimeEditor store day plans commitments stg =
     (let this = \<lparr>studyPlans = plans, fixedCommitments = commitments, settings = stg,
                   sessionTimeEdits = [], localStorage = store, getDay = day\<rparr>
      in case store of
           None \<Rightarrow> Inr this
         | Some savedEdits \<Rightarrow>
             if truthy savedEdits
             then (case JSON_parse savedEdits of
                     Inr edits \<Rightarrow> Inr (this\<lparr>sessionTimeEdits := edits\<rparr>)
                   | Inl e \<Rightarrow> Inr (this\<lparr>sessionTimeEdits := []\<rparr>))
             else Inr this)"

text \<open>\<open>saveEdits\<close> writes the whole log; a failing write is caught and only logged.\<close>

definition saveEdits :: "SessionTimeEditor \<Rightarrow> SessionTimeEditor" where
  "saveEdits ed = ed\<lparr>localStorage := Some (Json (sessionTimeEdits ed))\<rparr>"

subsection \<open>Projection of edits\<close>

text \<open>The key test shared by \<open>find\<close> and \<open>findIndex\<close> over the log.\<close>

definition same_number :: "number option \<Rightarrow> number \<Rightarrow> bool" where
  "same_number a b = (case a of None \<Rightarrow> False | Some n \<Rightarrow> js_eq n b)"

definition getEditedSession :: "SessionTimeEditor \<Rightarrow> StudySession \<Rightarrow> string \<Rightarrow> StudySession" where
  "getEditedSession ed session planDate =
     (case find (\<lambda>e. e_planDate e = planDate \<and> e_taskId e = taskId session
                      \<and> same_number (sessionNumber session) (e_sessionNumber e))
                (sessionTimeEdits ed) of
        Some edit \<Rightarrow> session\<lparr>startTime := e_newStartTime edit, endTime := e_newEndTime edit\<rparr>
      | None \<Rightarrow> session)"

definition applyEditsToPlans :: "SessionTimeEditor \<Rightarrow> StudyPlan list \<Rightarrow> StudyPlan list" where
  "applyEditsToPlans ed plans =
     map (\<lambda>plan. plan\<lparr>plannedTasks :=
            map (\<lambda>session. getEditedSession ed session (p_date plan)) (plannedTasks plan)\<rparr>) plans"

definition findSession :: "SessionTimeEditor \<Rightarrow> string \<Rightarrow> string \<Rightarrow> number \<Rightarrow> StudySession option" where
  "findSession ed planDate taskId' sessionNumber' =
     (case find (\<lambda>p. p_date p = planDate) (studyPlans ed) of
        None \<Rightarrow> None
      | Some plan \<Rightarrow>
          find (\<lambda>s. taskId s = taskId' \<and> same_number (sessionNumber s) sessionNumber')
               (plannedTasks plan))"

subsection \<open>Commitment resolver\<close>

text \<open>\<open>a || b\<close> on an optional string: a missing or empty \<open>a\<close> gives \<open>b\<close>.\<close>

definition or_else :: "string option \<Rightarrow> string \<Rightarrow> string" where
  "or_else a b = (case a of None \<Rightarrow> b | Some s \<Rightarrow> if s = [] then b else s)"

definition includes_opt :: "'a list option \<Rightarrow> 'a \<Rightarrow> bool" where
  "includes_opt xs x = (case xs of None \<Rightarrow> False | Some ys \<Rightarrow> x \<in> set ys)"

definition applies_on :: "number \<Rightarrow> string \<Rightarrow> FixedCommitment \<Rightarrow> bool" where
  "applies_on dayOfWeek date commitment =
     (if includes_opt (deletedOccurrences commitment) date then False
      else if recurring commitment then dayOfWeek \<in> set (daysOfWeek commitment)
      else includes_opt (specificDates commitment) date)"

definition apply_modification :: "string \<Rightarrow> FixedCommitment \<Rightarrow> FixedCommitment" where
  "apply_modification date commitment =
     (case map_of (modifiedOccurrences commitment) date of
        Some modification \<Rightarrow>
          commitment\<lparr>c_startTime := or_else (m_startTime modification) (c_startTime commitment),
                     c_endTime := or_else (m_endTime modification) (c_endTime commitment),
                     c_title := or_else (m_title modification) (c_title commitment)\<rparr>
      | None \<Rightarrow> commitment)"

definition getCommitmentsForDate :: "SessionTimeEditor \<Rightarrow> string \<Rightarrow> FixedCommitment list" where
  "getCommitmentsForDate ed date =
     (let dayOfWeek = getDay ed date
      in map (apply_modification date) (filter (applies_on dayOfWeek date) (fixedCommitments ed)))"

subsection \<open>Conflict checker\<close>

definition sessionId :: "StudySession \<Rightarrow> string" where
  "sessionId session =
     taskId session @ ''-'' @ (case sessionNumber session of None \<Rightarrow> ''undefined'' | Some n \<Rightarrow> toString n)"

definition window_reason :: "UserSettings \<Rightarrow> string" where
  "window_reason stg =
     ''Outside study window ('' @ toString (studyWindowStartHour stg) @ '':00 - ''
       @ toString (studyWindowEndHour stg) @ '':00)''"

definition session_reason :: "StudySession \<Rightarrow> string" where
  "session_reason editedSession =
     ''Overlaps with '' @ taskId editedSession @ '' session ('' @ startTime editedSession
       @ '' - '' @ endTime editedSession @ '')''"

definition commitment_reason :: "FixedCommitment \<Rightarrow> string" where
  "commitment_reason commitment =
     ''Overlaps with '' @ c_title commitment @ '' ('' @ c_startTime commitment
       @ '' - '' @ c_endTime commitment @ '')''"

text \<open>
  The two loops of \<open>checkTimeConflict\<close>. Each returns \<open>Some\<close> result where the source
  returns from inside the loop and \<open>None\<close> when the loop runs to its end. The argument
  \<open>sugg\<close> is the value of
  \<open>includeSuggestions ? this.generateSuggestedTimes(...) : []\<close>.
\<close>

fun check_sessions ::
  "SessionTimeEditor \<Rightarrow> string \<Rightarrow> number \<Rightarrow> number \<Rightarrow> string \<Rightarrow> string list
     \<Rightarrow> StudySession list \<Rightarrow> conflict_result option" where
  "check_sessions ed planDate startMinutes newEndMinutes excludeSessionId sugg [] = None"
| "check_sessions ed planDate startMinutes newEndMinutes excludeSessionId sugg (session # rest) =
     (if sessionId session = excludeSessionId \<or> status session = Some skipped \<or> s_done session
      then check_sessions ed planDate startMinutes newEndMinutes excludeSessionId sugg rest
      else
        let editedSession = getEditedSession ed session planDate;
            sessionStart = timeToMinutes (startTime editedSession);
            sessionEnd = timeToMinutes (endTime editedSession)
        in if js_lt startMinutes sessionEnd \<and> js_gt newEndMinutes sessionStart
           then Some \<lparr>hasConflict = True,
                       conflictsWith = Some (session_reason editedSession),
                       suggestedTimes = Some sugg\<rparr>
           else check_sessions ed planDate startMinutes newEndMinutes excludeSessionId sugg rest)"

fun check_commitments ::
  "number \<Rightarrow> number \<Rightarrow> string list \<Rightarrow> FixedCommitment list \<Rightarrow> conflict_result option" where
  "check_commitments startMinutes newEndMinutes sugg [] = None"
| "check_commitments startMinutes newEndMinutes sugg (commitment # rest) =
     (let commitmentStart = timeToMinutes (c_startTime commitment);
          commitmentEnd = timeToMinutes (c_endTime commitment)
      in if js_lt startMinutes commitmentEnd \<and> js_gt newEndMinutes commitmentStart
         then Some \<lparr>hasConflict = True,
                     conflictsWith = Some (commitment_reason commitment),
                     suggestedTimes = Some sugg\<rparr>
         else check_commitments startMinutes newEndMinutes sugg rest)"

text \<open>
  The body of \<open>checkTimeConflict\<close>, with the suggestion list of the window and overlap
  branches passed in. \<open>checkTimeConflict\<close> and \<open>generateSuggestedTimes\<close> call each other in
  the source, the second always with \<open>includeSuggestions = false\<close>; the recursion is cut
  here by that argument.
\<close>

definition checkTimeConflict_body ::
  "SessionTimeEditor \<Rightarrow> string \<Rightarrow> string \<Rightarrow> number \<Rightarrow> string \<Rightarrow> string list \<Rightarrow> conflict_result" where
  "checkTimeConflict_body ed planDate newStartTime sessionDuration excludeSessionId sugg =
     (let newEndMinutes = js_add (timeToMinutes newStartTime) (js_mul sessionDuration (Num 60));
          studyStart = js_mul (studyWindowStartHour (settings ed)) (Num 60);
          studyEnd = js_mul (studyWindowEndHour (settings ed)) (Num 60);
          startMinutes = timeToMinutes newStartTime
      in if js_lt startMinutes studyStart \<or> js_gt newEndMinutes studyEnd
         then \<lparr>hasConflict = True,
                conflictsWith = Some (window_reason (settings ed)),
                suggestedTimes = Some sugg\<rparr>
         else if getDay ed planDate \<notin> set (workDays (settings ed))
         then \<lparr>hasConflict = True, conflictsWith = Some ''Not a work day'', suggestedTimes = Some []\<rparr>
         else
           case (case find (\<lambda>p. p_date p = planDate) (studyPlans ed) of
                   None \<Rightarrow> None
                 | Some plan \<Rightarrow>
                     check_sessions ed planDate startMinutes newEndMinutes excludeSessionId sugg
                       (plannedTasks plan)) of
             Some r \<Rightarrow> r
           | None \<Rightarrow>
               (case check_commitments startMinutes newEndMinutes sugg
                       (getCommitmentsForDate ed planDate) of
                  Some r \<Rightarrow> r
                | None \<Rightarrow> \<lparr>hasConflict = False, conflictsWith = None, suggestedTimes = None\<rparr>))"

subsection \<open>Suggestion generator\<close>

text \<open>
  The loop \<open>for (minutes = studyStart; minutes <= bound; minutes += 30)\<close> with the list
  collected so far; \<open>bound\<close> is \<open>studyEnd - sessionMinutes\<close>.
\<close>

function suggest_loop ::
  "SessionTimeEditor \<Rightarrow> string \<Rightarrow> number \<Rightarrow> string \<Rightarrow> number \<Rightarrow> number \<Rightarrow> string list \<Rightarrow> string list" where
  "suggest_loop ed planDate sessionDuration excludeSessionId bound minutes suggestions =
     (if js_le minutes bound
      then
        let startTime' = minutesToTime minutes;
            conflictCheck = checkTimeConflict_body ed planDate startTime' sessionDuration
                              excludeSessionId []
        in if \<not> hasConflict conflictCheck
           then (if length (suggestions @ [startTime']) \<ge> 3
                 then suggestions @ [startTime']
                 else suggest_loop ed planDate sessionDuration excludeSessionId bound
                        (js_add minutes (Num 30)) (suggestions @ [startTime']))
           else suggest_loop ed planDate sessionDuration excludeSessionId bound
                  (js_add minutes (Num 30)) suggestions
      else suggestions)"
  by pat_completeness auto


text \<open>The number of whole minutes still to scan: the measure of the loop.\<close>

definition minutes_left :: "number \<Rightarrow> number \<Rightarrow> nat" where
  "minutes_left bound minutes =
     (case (bound, minutes) of
        (Num b, Num m) \<Rightarrow> if m \<le> b then nat \<lfloor>b - m\<rfloor> + 1 else 0
      | _ \<Rightarrow> 0)"

termination suggest_loop
  apply (relation "measure (\<lambda>(ed, planDate, sessionDuration, excludeSessionId, bound, minutes,
                             suggestions). minutes_left bound minutes)")
    apply simp
  subgoal for ed planDate sessionDuration excludeSessionId bound minutes suggestions
    apply (cases minutes; cases bound; simp add: minutes_left_def)
    apply linarith
    done
  subgoal for ed planDate sessionDuration excludeSessionId bound minutes suggestions
    apply (cases minutes; cases bound; simp add: minutes_left_def)
    apply linarith
    done
  done

declare suggest_loop.simps [simp del]

definition generateSuggestedTimes ::
  "SessionTimeEditor \<Rightarrow> string \<Rightarrow> number \<Rightarrow> string \<Rightarrow> string list" where
  "generateSuggestedTimes ed planDate sessionDuration excludeSessionId =
     (let studyStart = js_mul (studyWindowStartHour (settings ed)) (Num 60);
          studyEnd = js_mul (studyWindowEndHour (settings ed)) (Num 60);
          sessionMinutes = js_mul sessionDuration (Num 60)
      in suggest_loop ed planDate sessionDuration excludeSessionId
           (js_sub studyEnd sessionMinutes) studyStart [])"

definition checkTimeConflict ::
  "SessionTimeEditor \<Rightarrow> string \<Rightarrow> string \<Rightarrow> number \<Rightarrow> string \<Rightarrow> bool \<Rightarrow> conflict_result" where
  "checkTimeConflict ed planDate newStartTime sessionDuration excludeSessionId includeSuggestions =
     checkTimeConflict_body ed planDate newStartTime sessionDuration excludeSessionId
       (if includeSuggestions
        then generateSuggestedTimes ed planDate sessionDuration excludeSessionId
        else [])"

subsection \<open>Editing the log\<close>

text \<open>\<open>findIndex\<close>: the first index whose element passes, \<open>None\<close> for \<open>-1\<close>.\<close>

fun findIndex :: "('a \<Rightarrow> bool) \<Rightarrow> 'a list \<Rightarrow> nat option" where
  "findIndex P [] = None"
| "findIndex P (x # xs) = (if P x then Some 0 else map_option Suc (findIndex P xs))"

definition edit_matches :: "string \<Rightarrow> string \<Rightarrow> number \<Rightarrow> SessionTimeEdit \<Rightarrow> bool" where
  "edit_matches planDate taskId' sessionNumber' edit =
     (e_planDate edit = planDate \<and> e_taskId edit = taskId'
      \<and> js_eq (e_sessionNumber edit) sessionNumber')"

text \<open>The clock read by \<open>Date.now()\<close> and by \<open>new Date().toISOString()\<close>.\<close>

record clock =
  now_ms :: number
  now_iso :: string

definition editSessionTime ::
  "clock \<Rightarrow> SessionTimeEditor \<Rightarrow> string \<Rightarrow> string \<Rightarrow> number \<Rightarrow> string \<Rightarrow> number
     \<Rightarrow> edit_result \<times> SessionTimeEditor" where
  "editSessionTime clk ed planDate taskId' sessionNumber' newStartTime sessionDuration =
     (let sessionId' = taskId' @ ''-'' @ toString sessionNumber';
          conflictCheck = checkTimeConflict ed planDate newStartTime sessionDuration sessionId' True
      in if hasConflict conflictCheck
         then (\<lparr>success = False, error = conflictsWith conflictCheck\<rparr>, ed)
         else
           let newEndMinutes = js_add (timeToMinutes newStartTime) (js_mul sessionDuration (Num 60));
               newEndTime = minutesToTime newEndMinutes;
               existingEditIndex =
                 findIndex (edit_matches planDate taskId' sessionNumber') (sessionTimeEdits ed)
           in case findSession ed planDate taskId' sessionNumber' of
                None \<Rightarrow> (\<lparr>success = False, error = Some ''Session not found''\<rparr>, ed)
              | Some session \<Rightarrow>
                  let edit = \<lparr>e_id = (case existingEditIndex of
                                         Some i \<Rightarrow> e_id (sessionTimeEdits ed ! i)
                                       | None \<Rightarrow> ''edit-'' @ toString (now_ms clk)),
                              e_planDate = planDate,
                              e_taskId = taskId',
                              e_sessionNumber = sessionNumber',
                              e_originalStartTime = startTime session,
                              e_newStartTime = newStartTime,
                              e_newEndTime = newEndTime,
                              e_editedAt = now_iso clk,
                              e_isTemporary = Some True\<rparr>
                  in (\<lparr>success = True, error = None\<rparr>,
                      saveEdits (ed\<lparr>sessionTimeEdits :=
                        (case existingEditIndex of
                           Some i \<Rightarrow> (sessionTimeEdits ed)[i := edit]
                         | None \<Rightarrow> sessionTimeEdits ed @ [edit])\<rparr>)))"

definition removeEdit ::
  "SessionTimeEditor \<Rightarrow> string \<Rightarrow> string \<Rightarrow> number \<Rightarrow> bool \<times> SessionTimeEditor" where
  "removeEdit ed planDate taskId' sessionNumber' =
     (case findIndex (edit_matches planDate taskId' sessionNumber') (sessionTimeEdits ed) of
        Some index \<Rightarrow>
          (True, saveEdits (ed\<lparr>sessionTimeEdits :=
                   take index (sessionTimeEdits ed) @ drop (Suc index) (sessionTimeEdits ed)\<rparr>))
      | None \<Rightarrow> (False, ed))"

definition clearTemporaryEdits :: "SessionTimeEditor \<Rightarrow> SessionTimeEditor" where
  "clearTemporaryEdits ed =
     saveEdits (ed\<lparr>sessionTimeEdits :=
       filter (\<lambda>edit. e_isTemporary edit \<noteq> Some True) (sessionTimeEdits ed)\<rparr>)"

definition getAllEdits :: "SessionTimeEditor \<Rightarrow> SessionTimeEdit list" where
  "getAllEdits ed = sessionTimeEdits ed"

section \<open>The conflict rules as the specification words them\<close>

text \<open>
  The four checks of the specification, each as a predicate of its own, and the precedence
  among them. These follow the specification's text; they are compared with
  \<open>checkTimeConflict\<close> below.
\<close>

definition candidate_start :: "string \<Rightarrow> number" where
  "candidate_start candidateStart = timeToMinutes candidateStart"

definition candidate_end :: "string \<Rightarrow> number \<Rightarrow> number" where
  "candidate_end candidateStart durationHours =
     js_add (timeToMinutes candidateStart) (js_mul durationHours (Num 60))"

definition outside_window :: "UserSettings \<Rightarrow> string \<Rightarrow> number \<Rightarrow> bool" where
  "outside_window stg candidateStart durationHours =
     (js_lt (candidate_start candidateStart) (js_mul (studyWindowStartHour stg) (Num 60))
      \<or> js_gt (candidate_end candidateStart durationHours)
               (js_mul (studyWindowEndHour stg) (Num 60)))"

definition not_work_day :: "SessionTimeEditor \<Rightarrow> string \<Rightarrow> bool" where
  "not_work_day ed date = (getDay ed date \<notin> set (workDays (settings ed)))"

text \<open>Half-open overlap: \<open>candidateStart < otherEnd AND candidateEnd > otherStart\<close>.\<close>

definition overlaps :: "number \<Rightarrow> number \<Rightarrow> string \<Rightarrow> string \<Rightarrow> bool" where
  "overlaps candidateStart candidateEnd otherStart otherEnd =
     (js_lt candidateStart (timeToMinutes otherEnd) \<and> js_gt candidateEnd (timeToMinutes otherStart))"

text \<open>
  The stored edit of a session on a date, in the specification's words: the log is keyed by
  date, task and session number, and the edit of a session is the entry under the
  session's own key, the earliest one in the log. A session without a session number, and a
  session number that is not a number, have no entry.
\<close>

fun stored_edit :: "SessionTimeEdit list \<Rightarrow> string \<Rightarrow> StudySession \<Rightarrow> SessionTimeEdit option" where
  "stored_edit [] date s = None"
| "stored_edit (e # es) date s =
     (if (e_planDate e, e_taskId e, Some (e_sessionNumber e)) = (date, taskId s, sessionNumber s)
         \<and> e_sessionNumber e \<noteq> NaN
      then Some e else stored_edit es date s)"

text \<open>
  A session with its stored edit applied: unchanged without an edit, else with start and end
  overwritten from the edit.
\<close>

definition with_stored_edit :: "SessionTimeEdit list \<Rightarrow> string \<Rightarrow> StudySession \<Rightarrow> StudySession" where
  "with_stored_edit edits date s =
     (case stored_edit edits date s of
        None \<Rightarrow> s
      | Some e \<Rightarrow> s\<lparr>startTime := e_newStartTime e, endTime := e_newEndTime e\<rparr>)"

text \<open>
  The sessions the overlap check looks at: those of the date's plan, without the excluded
  one, the skipped ones and the done ones, each with its stored edit applied.
\<close>

definition sessions_of :: "SessionTimeEditor \<Rightarrow> string \<Rightarrow> StudySession list" where
  "sessions_of ed date =
     (case find (\<lambda>p. p_date p = date) (studyPlans ed) of None \<Rightarrow> [] | Some plan \<Rightarrow> plannedTasks plan)"

definition is_checked :: "string \<Rightarrow> StudySession \<Rightarrow> bool" where
  "is_checked excludeSessionKey s =
     (sessionId s \<noteq> excludeSessionKey \<and> status s \<noteq> Some skipped \<and> \<not> s_done s)"

definition other_sessions :: "SessionTimeEditor \<Rightarrow> string \<Rightarrow> string \<Rightarrow> StudySession list" where
  "other_sessions ed date excludeSessionKey =
     map (with_stored_edit (sessionTimeEdits ed) date)
       (filter (is_checked excludeSessionKey) (sessions_of ed date))"

definition first_session_overlap ::
  "SessionTimeEditor \<Rightarrow> string \<Rightarrow> string \<Rightarrow> number \<Rightarrow> string \<Rightarrow> StudySession option" where
  "first_session_overlap ed date candidateStart durationHours excludeSessionKey =
     find (\<lambda>s. overlaps (candidate_start candidateStart) (candidate_end candidateStart durationHours)
                  (startTime s) (endTime s))
          (other_sessions ed date excludeSessionKey)"

definition first_commitment_overlap ::
  "SessionTimeEditor \<Rightarrow> string \<Rightarrow> string \<Rightarrow> number \<Rightarrow> FixedCommitment option" where
  "first_commitment_overlap ed date candidateStart durationHours =
     find (\<lambda>c. overlaps (candidate_start candidateStart) (candidate_end candidateStart durationHours)
                  (c_startTime c) (c_endTime c))
          (getCommitmentsForDate ed date)"

definition conflict_reason ::
  "SessionTimeEditor \<Rightarrow> string \<Rightarrow> string \<Rightarrow> number \<Rightarrow> string \<Rightarrow> string option" where
  "conflict_reason ed date candidateStart durationHours excludeSessionKey =
     (if outside_window (settings ed) candidateStart durationHours
      then Some (window_reason (settings ed))
      else if not_work_day ed date then Some ''Not a work day''
      else case first_session_overlap ed date candidateStart durationHours excludeSessionKey of
             Some s \<Rightarrow> Some (session_reason s)
           | None \<Rightarrow>
               (case first_commitment_overlap ed date candidateStart durationHours of
                  Some c \<Rightarrow> Some (commitment_reason c)
                | None \<Rightarrow> None))"

text \<open>
  The start minutes the specification has the generator scan: from the first to the last
  allowed minute in steps of 30. With a bound that is not a number nothing is scanned.
\<close>

definition candidate_minutes :: "number \<Rightarrow> number \<Rightarrow> number list" where
  "candidate_minutes first_minute last_minute =
     (case (first_minute, last_minute) of
        (Num a, Num b) \<Rightarrow>
          if a \<le> b then map (\<lambda>k. Num (a + 30 * of_nat k)) [0 ..< Suc (nat \<lfloor>(b - a) / 30\<rfloor>)] else []
      | _ \<Rightarrow> [])"

definition conflict_free :: "SessionTimeEditor \<Rightarrow> string \<Rightarrow> number \<Rightarrow> string \<Rightarrow> string \<Rightarrow> bool" where
  "conflict_free ed date durationHours excludeSessionKey candidateStart =
     (\<not> hasConflict (checkTimeConflict ed date candidateStart durationHours excludeSessionKey True))"

text \<open>Order by start time, as the specification asks of the commitment resolver.\<close>

definition sorted_by_start :: "FixedCommitment list \<Rightarrow> bool" where
  "sorted_by_start cs =
     sorted_wrt (\<lambda>a b. js_le (timeToMinutes (c_startTime a)) (timeToMinutes (c_startTime b))) cs"

text \<open>The log holds at most one edit for a key.\<close>

definition edits_for :: "string \<Rightarrow> string \<Rightarrow> number \<Rightarrow> SessionTimeEdit list \<Rightarrow> SessionTimeEdit list" where
  "edits_for planDate taskId' sessionNumber' edits =
     filter (edit_matches planDate taskId' sessionNumber') edits"

text \<open>A whole, non-negative number of minutes.\<close>

fun whole_minutes :: "number \<Rightarrow> bool" where
  "whole_minutes NaN = False"
| "whole_minutes (Num m) = (0 \<le> m \<and> of_int \<lfloor>m\<rfloor> = m)"

section \<open>A worked example\<close>

text \<open>
  Wednesday 2024-01-10 with a study window of 08:00 to 20:00 on Monday to Friday, session
  \<open>T1#1\<close> at 09:00 to 10:00, session \<open>T2#1\<close> at 13:00 to 14:00, and the weekly
  Wednesday commitments Lecture (14:00 to 15:00) and Gym (10:00 to 11:00), listed in that
  order. The Lecture is moved to 16:00 to 17:00 and typed as work on 2024-01-17, and carries
  an empty title override on 2024-01-24.
\<close>

definition demo_settings :: UserSettings where
  "demo_settings =
     \<lparr>workDays = [Num 1, Num 2, Num 3, Num 4, Num 5],
      studyWindowStartHour = Num 8, studyWindowEndHour = Num 20\<rparr>"

definition session_T1 :: StudySession where
  "session_T1 =
     \<lparr>taskId = ''T1'', scheduledTime = ''09:00'', startTime = ''09:00'', endTime = ''10:00'',
      allocatedHours = Num 1, sessionNumber = Some (Num 1), s_done = False,
      status = Some scheduled\<rparr>"

definition session_T2 :: StudySession where
  "session_T2 =
     \<lparr>taskId = ''T2'', scheduledTime = ''13:00'', startTime = ''13:00'', endTime = ''14:00'',
      allocatedHours = Num 1, sessionNumber = Some (Num 1), s_done = False,
      status = Some scheduled\<rparr>"

definition lecture :: FixedCommitment where
  "lecture =
     \<lparr>c_id = ''c1'', c_title = ''Lecture'', c_startTime = ''14:00'', c_endTime = ''15:00'',
      recurring = True, daysOfWeek = [Num 3], specificDates = None, c_type = class_c,
      deletedOccurrences = None,
      modifiedOccurrences =
        [(''2024-01-17'', \<lparr>m_startTime = Some ''16:00'', m_endTime = Some ''17:00'',
                            m_title = None, m_type = Some work\<rparr>),
         (''2024-01-24'', \<lparr>m_startTime = None, m_endTime = None, m_title = Some [],
                            m_type = None\<rparr>)]\<rparr>"

definition gym :: FixedCommitment where
  "gym =
     \<lparr>c_id = ''c2'', c_title = ''Gym'', c_startTime = ''10:00'', c_endTime = ''11:00'',
      recurring = True, daysOfWeek = [Num 3], specificDates = None, c_type = other,
      deletedOccurrences = None, modifiedOccurrences = []\<rparr>"

definition demo_day :: "string \<Rightarrow> number" where
  "demo_day d = (if d = ''2024-01-10'' \<or> d = ''2024-01-17'' \<or> d = ''2024-01-24'' then Num 3
                 else if d = ''2024-01-13'' then Num 6 else NaN)"

definition demo_editor :: SessionTimeEditor where
  "demo_editor =
     \<lparr>studyPlans = [\<lparr>p_id = ''plan-1'', p_date = ''2024-01-10'',
                      plannedTasks = [session_T1, session_T2]\<rparr>],
      fixedCommitments = [lecture, gym],
      settings = demo_settings,
      sessionTimeEdits = [],
      localStorage = None,
      getDay = demo_day\<rparr>"

text \<open>The same editor with session \<open>T2#1\<close> moved to 15:00 to 16:00 by a stored edit.\<close>

definition moved_T2 :: SessionTimeEdit where
  "moved_T2 =
     \<lparr>e_id = ''edit-1'', e_planDate = ''2024-01-10'', e_taskId = ''T2'', e_sessionNumber = Num 1,
      e_originalStartTime = ''13:00'', e_newStartTime = ''15:00'', e_newEndTime = ''16:00'',
      e_editedAt = ''2024-01-09T08:00:00.000Z'', e_isTemporary = Some True\<rparr>"

definition edited_editor :: SessionTimeEditor where
  "edited_editor = demo_editor\<lparr>sessionTimeEdits := [moved_T2]\<rparr>"




definition demo_clock :: clock where
  "demo_clock = \<lparr>now_ms = Num 1704880800000, now_iso = ''2024-01-10T10:00:00.000Z''\<rparr>"


section \<open>The conflict checker against the specification's rules\<close>

lemma check_sessions_find:
  "check_sessions ed planDate startMinutes newEndMinutes excludeSessionId sugg xs =
     map_option
       (\<lambda>s. \<lparr>hasConflict = True, conflictsWith = Some (session_reason s), suggestedTimes = Some sugg\<rparr>)
       (find (\<lambda>s. overlaps startMinutes newEndMinutes (startTime s) (endTime s))
          (map (\<lambda>s. getEditedSession ed s planDate) (filter (is_checked excludeSessionId) xs)))"
  by (induction xs) (simp_all add: is_checked_def overlaps_def Let_def)

lemma check_commitments_find:
  "check_commitments startMinutes newEndMinutes sugg cs =
     map_option
       (\<lambda>c. \<lparr>hasConflict = True, conflictsWith = Some (commitment_reason c), suggestedTimes = Some sugg\<rparr>)
       (find (\<lambda>c. overlaps startMinutes newEndMinutes (c_startTime c) (c_endTime c)) cs)"
  by (induction cs) (simp_all add: overlaps_def Let_def)

text \<open>\<open>getEditedSession\<close> applies the stored edit of the specification.\<close>

lemma js_eq_iff: "js_eq a b \<longleftrightarrow> a = b \<and> a \<noteq> NaN"
  by (cases a; cases b) auto

lemma find_stored_edit:
  "find (\<lambda>e. e_planDate e = planDate \<and> e_taskId e = taskId session
               \<and> same_number (sessionNumber session) (e_sessionNumber e)) edits
     = stored_edit edits planDate session"
  by (induction edits) (auto simp: same_number_def js_eq_iff split: option.splits)

lemma getEditedSession_stored:
  "getEditedSession ed session planDate = with_stored_edit (sessionTimeEdits ed) planDate session"
  by (simp add: getEditedSession_def with_stored_edit_def find_stored_edit)

lemma other_sessions_projected:
  "other_sessions ed date excludeSessionKey
     = map (\<lambda>s. getEditedSession ed s date)
         (filter (is_checked excludeSessionKey) (sessions_of ed date))"
  by (simp add: other_sessions_def getEditedSession_stored)

lemma plan_sessions_find:
  "(case find (\<lambda>p. p_date p = planDate) (studyPlans ed) of
      None \<Rightarrow> None
    | Some plan \<Rightarrow> check_sessions ed planDate st en ex sugg (plannedTasks plan))
   = check_sessions ed planDate st en ex sugg (sessions_of ed planDate)"
  by (simp add: sessions_of_def split: option.splits)

lemma body_conflictsWith:
  "conflictsWith (checkTimeConflict_body ed planDate newStartTime sessionDuration excludeSessionId sugg)
     = conflict_reason ed planDate newStartTime sessionDuration excludeSessionId"
  unfolding checkTimeConflict_body_def Let_def plan_sessions_find
  by (simp add: conflict_reason_def outside_window_def not_work_day_def candidate_start_def
        candidate_end_def first_session_overlap_def first_commitment_overlap_def
        other_sessions_projected check_sessions_find check_commitments_find
      split: option.splits)

lemma body_hasConflict:
  "hasConflict (checkTimeConflict_body ed planDate newStartTime sessionDuration excludeSessionId sugg)
     = (conflict_reason ed planDate newStartTime sessionDuration excludeSessionId \<noteq> None)"
  unfolding checkTimeConflict_body_def Let_def plan_sessions_find
  by (simp add: conflict_reason_def outside_window_def not_work_day_def candidate_start_def
        candidate_end_def first_session_overlap_def first_commitment_overlap_def
        other_sessions_projected check_sessions_find check_commitments_find
      split: option.splits)

lemma body_suggestedTimes:
  "suggestedTimes (checkTimeConflict_body ed planDate newStartTime sessionDuration excludeSessionId sugg)
     = (if outside_window (settings ed) newStartTime sessionDuration then Some sugg
        else if not_work_day ed planDate then Some []
        else if conflict_reason ed planDate newStartTime sessionDuration excludeSessionId \<noteq> None
        then Some sugg else None)"
  unfolding checkTimeConflict_body_def Let_def plan_sessions_find
  by (simp add: conflict_reason_def outside_window_def not_work_day_def candidate_start_def
        candidate_end_def first_session_overlap_def first_commitment_overlap_def
        other_sessions_projected check_sessions_find check_commitments_find
      split: option.splits)

lemma check_conflictsWith:
  "conflictsWith (checkTimeConflict ed planDate newStartTime sessionDuration excludeSessionId inc)
     = conflict_reason ed planDate newStartTime sessionDuration excludeSessionId"
  by (simp add: checkTimeConflict_def body_conflictsWith)

lemma check_hasConflict:
  "hasConflict (checkTimeConflict ed planDate newStartTime sessionDuration excludeSessionId inc)
     = (conflict_reason ed planDate newStartTime sessionDuration excludeSessionId \<noteq> None)"
  by (simp add: checkTimeConflict_def body_hasConflict)

text \<open>The call the generator makes, with suggestions switched off.\<close>

lemma checkTimeConflict_no_suggestions:
  "checkTimeConflict ed planDate newStartTime sessionDuration excludeSessionId False
     = checkTimeConflict_body ed planDate newStartTime sessionDuration excludeSessionId []"
  by (simp add: checkTimeConflict_def)

lemma conflict_reason_not_missing:
  "conflict_reason ed planDate newStartTime sessionDuration excludeSessionId \<noteq> Some ''Session not found''"
  by (simp add: conflict_reason_def window_reason_def session_reason_def commitment_reason_def
      split: option.splits)

text \<open>
  C1. For every date, candidate start, duration and excluded session key (and either value of
  the suggestion flag), \<open>checkTimeConflict\<close> reports exactly the reason of the first failing
  check in the order study window, work day, session overlap, commitment overlap, and
  reports a conflict exactly when one of them fails. The session check passes over the
  excluded session and the skipped and done ones, applies the stored edit to each remaining
  session (the entry of the log under the session's date, task and number overwrites its
  start and end), and tests \<open>candidateStart < otherEnd\<close> and \<open>candidateEnd > otherStart\<close>.
\<close>

theorem checkTimeConflict_precedence:
  "conflictsWith (checkTimeConflict ed date candidateStart durationHours excludeSessionKey
                    includeSuggestions)
     = conflict_reason ed date candidateStart durationHours excludeSessionKey
   \<and> hasConflict (checkTimeConflict ed date candidateStart durationHours excludeSessionKey
                    includeSuggestions)
     = (conflict_reason ed date candidateStart durationHours excludeSessionKey \<noteq> None)"
proof -
  let ?sugg = "if includeSuggestions
               then generateSuggestedTimes ed date durationHours excludeSessionKey else []"
  have unfold: "checkTimeConflict ed date candidateStart durationHours excludeSessionKey
                  includeSuggestions
                = checkTimeConflict_body ed date candidateStart durationHours excludeSessionKey ?sugg"
    by (simp only: checkTimeConflict_def)
  have reason: "conflictsWith (checkTimeConflict_body ed date candidateStart durationHours
                                 excludeSessionKey ?sugg)
                  = conflict_reason ed date candidateStart durationHours excludeSessionKey"
    by (rule body_conflictsWith)
  have flag: "hasConflict (checkTimeConflict_body ed date candidateStart durationHours
                             excludeSessionKey ?sugg)
                = (conflict_reason ed date candidateStart durationHours excludeSessionKey \<noteq> None)"
    by (rule body_hasConflict)
  from reason flag show ?thesis
    unfolding unfold by (rule conjI)
qed

theorem checkTimeConflict_precedence_witness:
  "conflictsWith (checkTimeConflict edited_editor ''2024-01-10'' ''15:30'' (Num 1) ''T1-1'' True)
     = Some ''Overlaps with T2 session (15:00 - 16:00)''
   \<and> hasConflict (checkTimeConflict edited_editor ''2024-01-10'' ''15:30'' (Num 1) ''T1-1'' True)
   \<and> \<not> hasConflict (checkTimeConflict edited_editor ''2024-01-10'' ''13:00'' (Num 1) ''T1-1'' True)
   \<and> conflictsWith (checkTimeConflict edited_editor ''2024-01-10'' ''09:30'' (Num 1) ''T1-1'' True)
     = Some ''Overlaps with Gym (10:00 - 11:00)''"
proof -
  have moved: "conflict_reason edited_editor ''2024-01-10'' ''15:30'' (Num 1) ''T1-1''
                 = Some ''Overlaps with T2 session (15:00 - 16:00)''"
    by code_simp
  have freed: "conflict_reason edited_editor ''2024-01-10'' ''13:00'' (Num 1) ''T1-1'' = None"
    by code_simp
  have gym: "conflict_reason edited_editor ''2024-01-10'' ''09:30'' (Num 1) ''T1-1''
               = Some ''Overlaps with Gym (10:00 - 11:00)''"
    by code_simp
  from checkTimeConflict_precedence [of edited_editor "''2024-01-10''" "''15:30''" "Num 1"
         "''T1-1''" True]
       checkTimeConflict_precedence [of edited_editor "''2024-01-10''" "''13:00''" "Num 1"
         "''T1-1''" True]
       checkTimeConflict_precedence [of edited_editor "''2024-01-10''" "''09:30''" "Num 1"
         "''T1-1''" True]
       moved freed gym
  show ?thesis by simp
qed

section \<open>Rejected edits\<close>

text \<open>
  C4. When the conflict check reports a conflict for the candidate time,
  \<open>editSessionTime\<close> returns \<open>success = false\<close> with the checker's reason as the error,
  and the editor, its edit log included, is exactly as before the call.
\<close>

theorem editSessionTime_conflict_rejected:
  assumes "hasConflict (checkTimeConflict ed planDate newStartTime sessionDuration
                          (taskId' @ ''-'' @ toString sessionNumber') True)"
  shows "editSessionTime clk ed planDate taskId' sessionNumber' newStartTime sessionDuration
           = (\<lparr>success = False,
               error = conflictsWith (checkTimeConflict ed planDate newStartTime sessionDuration
                                        (taskId' @ ''-'' @ toString sessionNumber') True)\<rparr>, ed)
         \<and> conflictsWith (checkTimeConflict ed planDate newStartTime sessionDuration
                            (taskId' @ ''-'' @ toString sessionNumber') True) \<noteq> None"
proof -
  from assms have "conflict_reason ed planDate newStartTime sessionDuration
                     (taskId' @ ''-'' @ toString sessionNumber') \<noteq> None"
    by (simp add: check_hasConflict)
  then have "conflictsWith (checkTimeConflict ed planDate newStartTime sessionDuration
                              (taskId' @ ''-'' @ toString sessionNumber') True) \<noteq> None"
    by (simp add: check_conflictsWith)
  moreover from assms
  have "editSessionTime clk ed planDate taskId' sessionNumber' newStartTime sessionDuration
          = (\<lparr>success = False,
              error = conflictsWith (checkTimeConflict ed planDate newStartTime sessionDuration
                                       (taskId' @ ''-'' @ toString sessionNumber') True)\<rparr>, ed)"
    by (simp add: editSessionTime_def Let_def)
  ultimately show ?thesis by simp
qed

theorem editSessionTime_conflict_rejected_witness:
  "hasConflict (checkTimeConflict demo_editor ''2024-01-10'' ''09:30'' (Num 1) ''T1-1'' True)
   \<and> editSessionTime demo_clock demo_editor ''2024-01-10'' ''T1'' (Num 1) ''09:30'' (Num 1)
       = (\<lparr>success = False, error = Some ''Overlaps with Gym (10:00 - 11:00)''\<rparr>, demo_editor)"
proof -
  have id: "''T1'' @ ''-'' @ toString (Num 1) = ''T1-1''"
    by code_simp
  have c: "conflict_reason demo_editor ''2024-01-10'' ''09:30'' (Num 1) ''T1-1''
             = Some ''Overlaps with Gym (10:00 - 11:00)''"
    by code_simp
  have h: "hasConflict (checkTimeConflict demo_editor ''2024-01-10'' ''09:30'' (Num 1) ''T1-1'' True)"
    by (simp add: check_hasConflict c)
  have r: "conflictsWith (checkTimeConflict demo_editor ''2024-01-10'' ''09:30'' (Num 1) ''T1-1'' True)
             = Some ''Overlaps with Gym (10:00 - 11:00)''"
    by (simp add: check_conflictsWith c)
  from h have h': "hasConflict (checkTimeConflict demo_editor ''2024-01-10'' ''09:30'' (Num 1)
                                  (''T1'' @ ''-'' @ toString (Num 1)) True)"
    by (simp only: id)
  from editSessionTime_conflict_rejected [OF h', of demo_clock] h r show ?thesis
    by (simp only: id)
qed

text \<open>
  C10. When the target session is not in the plan of the date, a candidate time that fails
  the conflict check is answered with the conflict's reason, and \<open>Session not found\<close> is the
  answer only when the candidate time is free of conflicts: the conflict check comes first.
  No conflict reason reads \<open>Session not found\<close>.
\<close>

theorem editSessionTime_conflict_before_lookup:
  assumes "findSession ed planDate taskId' sessionNumber' = None"
  shows "editSessionTime clk ed planDate taskId' sessionNumber' newStartTime sessionDuration
           = (\<lparr>success = False,
               error = (if hasConflict (checkTimeConflict ed planDate newStartTime sessionDuration
                                          (taskId' @ ''-'' @ toString sessionNumber') True)
                        then conflictsWith (checkTimeConflict ed planDate newStartTime
                               sessionDuration (taskId' @ ''-'' @ toString sessionNumber') True)
                        else Some ''Session not found'')\<rparr>, ed)
         \<and> (error (fst (editSessionTime clk ed planDate taskId' sessionNumber' newStartTime
                           sessionDuration)) = Some ''Session not found''
              \<longleftrightarrow> \<not> hasConflict (checkTimeConflict ed planDate newStartTime sessionDuration
                                     (taskId' @ ''-'' @ toString sessionNumber') True))"
  using assms conflict_reason_not_missing [of ed planDate newStartTime sessionDuration
      "taskId' @ ''-'' @ toString sessionNumber'"]
  by (simp add: editSessionTime_def Let_def check_conflictsWith)

theorem editSessionTime_conflict_before_lookup_witness:
  "findSession demo_editor ''2024-01-10'' ''T9'' (Num 1) = None
   \<and> editSessionTime demo_clock demo_editor ''2024-01-10'' ''T9'' (Num 1) ''09:30'' (Num 1)
       = (\<lparr>success = False, error = Some ''Overlaps with T1 session (09:00 - 10:00)''\<rparr>, demo_editor)
   \<and> editSessionTime demo_clock demo_editor ''2024-01-10'' ''T9'' (Num 1) ''11:00'' (Num 1)
       = (\<lparr>success = False, error = Some ''Session not found''\<rparr>, demo_editor)"
proof -
  have id: "''T9'' @ ''-'' @ toString (Num 1) = ''T9-1''"
    by code_simp
  have n: "findSession demo_editor ''2024-01-10'' ''T9'' (Num 1) = None"
    by code_simp
  have c1: "conflict_reason demo_editor ''2024-01-10'' ''09:30'' (Num 1) ''T9-1''
              = Some ''Overlaps with T1 session (09:00 - 10:00)''"
    by code_simp
  have c2: "conflict_reason demo_editor ''2024-01-10'' ''11:00'' (Num 1) ''T9-1'' = None"
    by code_simp
  have h1: "hasConflict (checkTimeConflict demo_editor ''2024-01-10'' ''09:30'' (Num 1) ''T9-1'' True)"
    by (simp add: check_hasConflict c1)
  have r1: "conflictsWith (checkTimeConflict demo_editor ''2024-01-10'' ''09:30'' (Num 1) ''T9-1'' True)
              = Some ''Overlaps with T1 session (09:00 - 10:00)''"
    by (simp add: check_conflictsWith c1)
  have h2: "\<not> hasConflict (checkTimeConflict demo_editor ''2024-01-10'' ''11:00'' (Num 1) ''T9-1'' True)"
    by (simp add: check_hasConflict c2)
  from editSessionTime_conflict_before_lookup [OF n, of demo_clock "''09:30''" "Num 1"]
       editSessionTime_conflict_before_lookup [OF n, of demo_clock "''11:00''" "Num 1"]
       n h1 r1 h2
  show ?thesis by (simp only: id) simp
qed

section \<open>Construction\<close>

text \<open>
  C9. When the stored payload cannot be parsed, the constructor returns an editor (no
  exception leaves it) whose edit log is empty.
\<close>

theorem constructor_discards_unparsable:
  assumes "JSON_parse savedEdits = Inl e"
  shows "new_SessionTimeEditor (Some savedEdits) day plans commitments stg
           = Inr \<lparr>studyPlans = plans, fixedCommitments = commitments, settings = stg,
                  sessionTimeEdits = [], localStorage = Some savedEdits, getDay = day\<rparr>"
  using assms by (simp add: new_SessionTimeEditor_def Let_def)

theorem constructor_discards_unparsable_witness:
  "JSON_parse (Unparsable ''[{id:'') = Inl (SyntaxError ''[{id:'')
   \<and> new_SessionTimeEditor (Some (Unparsable ''[{id:'')) demo_day [] [lecture, gym] demo_settings
       = Inr \<lparr>studyPlans = [], fixedCommitments = [lecture, gym], settings = demo_settings,
              sessionTimeEdits = [], localStorage = Some (Unparsable ''[{id:''), getDay = demo_day\<rparr>"
proof -
  have p: "JSON_parse (Unparsable ''[{id:'') = Inl (SyntaxError ''[{id:'')"
    by (simp add: JSON_parse_def)
  from constructor_discards_unparsable [OF p] p show ?thesis by simp
qed


section \<open>The suggestion generator\<close>

lemma candidate_minutes_done:
  "\<not> js_le minutes bound \<Longrightarrow> candidate_minutes minutes bound = []"
  by (cases minutes; cases bound) (simp_all add: candidate_minutes_def)

lemma candidate_minutes_step:
  assumes "js_le minutes bound"
  shows "candidate_minutes minutes bound = minutes # candidate_minutes (js_add minutes (Num 30)) bound"
proof -
  from assms obtain a b where ab: "minutes = Num a" "bound = Num b" "a \<le> b"
    by (cases minutes; cases bound) simp_all
  let ?n = "nat \<lfloor>(b - a) / 30\<rfloor>"
  have shift: "map (\<lambda>k. Num (a + 30 * of_nat k)) [0 ..< Suc ?n]
                 = Num a # map (\<lambda>k. Num (a + 30 + 30 * of_nat k)) [0 ..< ?n]"
    by (simp add: upt_conv_Cons map_Suc_upt [symmetric] algebra_simps del: upt_Suc)
  show ?thesis
  proof (cases "a + 30 \<le> b")
    case True
    define x where "x = (b - (a + 30)) / 30"
    have "(b - a) / 30 = x + 1" by (simp add: x_def field_simps)
    then have "\<lfloor>(b - a) / 30\<rfloor> = \<lfloor>x + 1\<rfloor>" by (simp only:)
    then have "\<lfloor>(b - a) / 30\<rfloor> = \<lfloor>(b - (a + 30)) / 30\<rfloor> + 1"
      by (simp add: x_def)
    moreover from True have "0 \<le> \<lfloor>(b - (a + 30)) / 30\<rfloor>" by simp
    ultimately have "?n = Suc (nat \<lfloor>(b - (a + 30)) / 30\<rfloor>)" by linarith
    with ab True shift show ?thesis
      by (simp add: candidate_minutes_def del: upt_Suc)
  next
    case False
    with ab have "(b - a) / 30 < 1" "0 \<le> (b - a) / 30" by simp_all
    then have "\<lfloor>(b - a) / 30\<rfloor> = 0" by linarith
    then have "?n = 0" by simp
    with ab False show ?thesis
      by (simp add: candidate_minutes_def)
  qed
qed

lemma suggest_loop_stop:
  "\<not> js_le minutes bound \<Longrightarrow>
   suggest_loop ed planDate sessionDuration excludeSessionId bound minutes suggestions = suggestions"
  by (subst suggest_loop.simps) simp

lemma suggest_loop_conflict:
  "js_le minutes bound \<Longrightarrow>
   hasConflict (checkTimeConflict_body ed planDate (minutesToTime minutes) sessionDuration
                  excludeSessionId []) \<Longrightarrow>
   suggest_loop ed planDate sessionDuration excludeSessionId bound minutes suggestions
     = suggest_loop ed planDate sessionDuration excludeSessionId bound (js_add minutes (Num 30))
         suggestions"
  by (subst suggest_loop.simps) (simp add: Let_def)

lemma suggest_loop_full:
  "js_le minutes bound \<Longrightarrow>
   \<not> hasConflict (checkTimeConflict_body ed planDate (minutesToTime minutes) sessionDuration
                    excludeSessionId []) \<Longrightarrow>
   2 \<le> length suggestions \<Longrightarrow>
   suggest_loop ed planDate sessionDuration excludeSessionId bound minutes suggestions
     = suggestions @ [minutesToTime minutes]"
  by (subst suggest_loop.simps) (simp add: Let_def)

lemma suggest_loop_more:
  "js_le minutes bound \<Longrightarrow>
   \<not> hasConflict (checkTimeConflict_body ed planDate (minutesToTime minutes) sessionDuration
                    excludeSessionId []) \<Longrightarrow>
   length suggestions < 2 \<Longrightarrow>
   suggest_loop ed planDate sessionDuration excludeSessionId bound minutes suggestions
     = suggest_loop ed planDate sessionDuration excludeSessionId bound (js_add minutes (Num 30))
         (suggestions @ [minutesToTime minutes])"
  by (subst suggest_loop.simps) (simp add: Let_def)

lemma suggest_loop_scan:
  "length suggestions < 3 \<Longrightarrow>
   suggest_loop ed planDate sessionDuration excludeSessionId bound minutes suggestions
     = suggestions @ take (3 - length suggestions)
         (filter (\<lambda>t. \<not> hasConflict (checkTimeConflict_body ed planDate t sessionDuration
                                         excludeSessionId []))
            (map minutesToTime (candidate_minutes minutes bound)))"
proof (induction ed planDate sessionDuration excludeSessionId bound minutes suggestions
       rule: suggest_loop.induct)
  case (1 ed planDate sessionDuration excludeSessionId bound minutes suggestions)
  show ?case
  proof (cases "js_le minutes bound")
    case False
    then show ?thesis
      by (simp add: suggest_loop_stop candidate_minutes_done)
  next
    case scan: True
    show ?thesis
    proof (cases "hasConflict (checkTimeConflict_body ed planDate (minutesToTime minutes)
                                 sessionDuration excludeSessionId [])")
      case True
      from "1.IH"(2) [OF scan refl refl _ "1.prems"] True
      have "suggest_loop ed planDate sessionDuration excludeSessionId bound
              (js_add minutes (Num 30)) suggestions
            = suggestions @ take (3 - length suggestions)
                (filter (\<lambda>t. \<not> hasConflict (checkTimeConflict_body ed planDate t
                                                sessionDuration excludeSessionId []))
                   (map minutesToTime (candidate_minutes (js_add minutes (Num 30)) bound)))"
        by simp
      with scan True show ?thesis
        by (simp add: suggest_loop_conflict candidate_minutes_step)
    next
      case free: False
      show ?thesis
      proof (cases "2 \<le> length suggestions")
        case True
        with "1.prems" have "length suggestions = 2" by simp
        with scan free show ?thesis
          by (simp add: suggest_loop_full candidate_minutes_step)
      next
        case False
        then have short: "length suggestions < 2" by simp
        then have n3: "\<not> 3 \<le> length (suggestions @ [minutesToTime minutes])"
          and l3: "length (suggestions @ [minutesToTime minutes]) < 3" by simp_all
        from free have f': "\<not> \<not> \<not> hasConflict (checkTimeConflict_body ed planDate
                               (minutesToTime minutes) sessionDuration excludeSessionId [])"
          by simp
        have "suggest_loop ed planDate sessionDuration excludeSessionId bound
                (js_add minutes (Num 30)) (suggestions @ [minutesToTime minutes])
              = (suggestions @ [minutesToTime minutes])
                @ take (3 - length (suggestions @ [minutesToTime minutes]))
                  (filter (\<lambda>t. \<not> hasConflict (checkTimeConflict_body ed planDate t
                                                  sessionDuration excludeSessionId []))
                     (map minutesToTime (candidate_minutes (js_add minutes (Num 30)) bound)))"
          using "1.IH"(1) scan free n3 l3 by simp
        moreover from short have "3 - length suggestions = Suc (2 - length suggestions)" by simp
        ultimately show ?thesis using scan free short
          by (simp add: suggest_loop_more candidate_minutes_step)
      qed
    qed
  qed
qed

lemma conflict_free_body:
  "conflict_free ed date durationHours excludeSessionKey
     = (\<lambda>t. \<not> hasConflict (checkTimeConflict_body ed date t durationHours excludeSessionKey []))"
  by (rule ext) (simp add: conflict_free_def check_hasConflict body_hasConflict)

lemma generateSuggestedTimes_scan:
  "generateSuggestedTimes ed date durationHours excludeSessionKey
     = take 3 (filter (conflict_free ed date durationHours excludeSessionKey)
         (map minutesToTime
            (candidate_minutes (js_mul (studyWindowStartHour (settings ed)) (Num 60))
               (js_sub (js_mul (studyWindowEndHour (settings ed)) (Num 60))
                       (js_mul durationHours (Num 60))))))"
  by (simp add: generateSuggestedTimes_def Let_def suggest_loop_scan conflict_free_body)

lemma demo_suggestions:
  "generateSuggestedTimes demo_editor ''2024-01-10'' (Num 1) ''T1-1'' = [''08:00'', ''08:30'', ''09:00'']"
  by code_simp

text \<open>
  C2. The generator returns the first three conflict-free start times among the minutes
  \<open>studyWindowStartHour * 60\<close>, \<open>+ 30\<close>, \<open>+ 60\<close>, ... that do not exceed
  \<open>studyWindowEndHour * 60\<close> less the duration in minutes (all of them when there are fewer
  than three), so at most three, and each of them passes \<open>checkTimeConflict\<close> with the same
  date, duration and excluded key.
\<close>

theorem generateSuggestedTimes_first_three_free:
  "generateSuggestedTimes ed date durationHours excludeSessionKey
     = take 3 (filter (conflict_free ed date durationHours excludeSessionKey)
         (map minutesToTime
            (candidate_minutes (js_mul (studyWindowStartHour (settings ed)) (Num 60))
               (js_sub (js_mul (studyWindowEndHour (settings ed)) (Num 60))
                       (js_mul durationHours (Num 60))))))
   \<and> length (generateSuggestedTimes ed date durationHours excludeSessionKey) \<le> 3
   \<and> (\<forall>t \<in> set (generateSuggestedTimes ed date durationHours excludeSessionKey).
         \<not> hasConflict (checkTimeConflict ed date t durationHours excludeSessionKey True))"
proof -
  let ?scan = "filter (conflict_free ed date durationHours excludeSessionKey)
         (map minutesToTime
            (candidate_minutes (js_mul (studyWindowStartHour (settings ed)) (Num 60))
               (js_sub (js_mul (studyWindowEndHour (settings ed)) (Num 60))
                       (js_mul durationHours (Num 60)))))"
  have eq: "generateSuggestedTimes ed date durationHours excludeSessionKey = take 3 ?scan"
    by (rule generateSuggestedTimes_scan)
  have free: "\<not> hasConflict (checkTimeConflict ed date t durationHours excludeSessionKey True)"
    if "t \<in> set (take 3 ?scan)" for t
  proof -
    from that have "t \<in> set ?scan" by (rule in_set_takeD)
    then have "conflict_free ed date durationHours excludeSessionKey t" by simp
    then show ?thesis by (simp add: conflict_free_def)
  qed
  have len: "length (take 3 ?scan) \<le> 3" by simp
  show ?thesis
    unfolding eq using free len by blast
qed

theorem generateSuggestedTimes_first_three_free_witness:
  "generateSuggestedTimes demo_editor ''2024-01-10'' (Num 1) ''T1-1'' = [''08:00'', ''08:30'', ''09:00'']
   \<and> \<not> hasConflict (checkTimeConflict demo_editor ''2024-01-10'' ''08:30'' (Num 1) ''T1-1'' True)"
proof -
  note g = demo_suggestions
  from generateSuggestedTimes_first_three_free [of demo_editor "''2024-01-10''" "Num 1" "''T1-1''"]
  have "\<forall>t \<in> set (generateSuggestedTimes demo_editor ''2024-01-10'' (Num 1) ''T1-1'').
          \<not> hasConflict (checkTimeConflict demo_editor ''2024-01-10'' t (Num 1) ''T1-1'' True)"
    by blast
  with g show ?thesis by simp
qed


section \<open>Time strings of whole minutes read back as written\<close>

lemma is_digit_digit_char:
  "0 \<le> d \<Longrightarrow> d < 10 \<Longrightarrow> is_digit (digit_char d) \<and> digit_val (digit_char d) = d"
  by (simp add: is_digit_def digit_val_def digit_char_def)

lemma digits_val_snoc:
  "digits_val (ds @ [c]) = 10 * digits_val ds + digit_val c"
  by (simp add: digits_val_def)

lemma show_int_small: "n < 10 \<Longrightarrow> show_int n = [digit_char n]"
  by (subst show_int.simps) simp

lemma show_int_large:
  "\<not> n < 10 \<Longrightarrow> show_int n = show_int (n div 10) @ [digit_char (n mod 10)]"
  by (subst show_int.simps) simp

lemma show_int_digits:
  "0 \<le> n \<Longrightarrow> list_all is_digit (show_int n) \<and> show_int n \<noteq> [] \<and> digits_val (show_int n) = n"
proof (induction n rule: show_int.induct)
  case (1 n)
  show ?case
  proof (cases "n < 10")
    case True
    with "1.prems" show ?thesis
      by (simp add: show_int_small is_digit_digit_char digits_val_def)
  next
    case False
    with "1.prems" have "0 \<le> n div 10" by simp
    with "1.IH" False
    have ih: "list_all is_digit (show_int (n div 10))" "digits_val (show_int (n div 10)) = n div 10"
      by simp_all
    have d: "is_digit (digit_char (n mod 10))" "digit_val (digit_char (n mod 10)) = n mod 10"
      by (simp_all add: is_digit_digit_char)
    from False ih d show ?thesis
      by (simp add: show_int_large digits_val_snoc)
  qed
qed

lemma digits_val_zeros:
  "digits_val (replicate k (CHR ''0'') @ ds) = digits_val ds"
  by (induction k) (simp_all add: digits_val_def digit_val_def)

lemma is_digit_zero: "is_digit (CHR ''0'')"
  by (simp add: is_digit_def)

lemma padStart2_digits:
  "0 \<le> n \<Longrightarrow>
   list_all is_digit (padStart2 (show_int n)) \<and> padStart2 (show_int n) \<noteq> []
   \<and> digits_val (padStart2 (show_int n)) = n"
  using show_int_digits [of n]
  by (auto simp: padStart2_def digits_val_zeros is_digit_zero list_all_iff)

lemma digit_not_ws: "is_digit c \<Longrightarrow> \<not> is_ws c"
  by (auto simp: is_digit_def is_ws_def)

lemma digit_not_special:
  "is_digit c \<Longrightarrow> c \<noteq> CHR '':'' \<and> c \<noteq> CHR ''-'' \<and> c \<noteq> CHR ''+'' \<and> c \<noteq> CHR ''.''"
  by (auto simp: is_digit_def)

lemma trim_digits:
  assumes "list_all is_digit ds"
  shows "trim ds = ds"
proof (cases ds)
  case Nil
  then show ?thesis by (simp add: trim_def)
next
  case (Cons c cs)
  with assms have "\<not> is_ws (hd ds)" "\<not> is_ws (last ds)" "ds \<noteq> []"
    by (auto simp: list_all_iff digit_not_ws)
  then have "dropWhile is_ws ds = ds" "dropWhile is_ws (rev ds) = rev ds"
    by (simp_all add: dropWhile_eq_self_iff hd_rev)
  then show ?thesis by (simp add: trim_def)
qed

lemma Number_js_digits:
  assumes "list_all is_digit ds" "ds \<noteq> []"
  shows "Number_js ds = Num (of_int (digits_val ds))"
proof -
  from assms obtain c cs where ds: "ds = c # cs" by (cases ds) auto
  with assms have "is_digit c" by simp
  then have c: "c \<noteq> CHR ''-''" "c \<noteq> CHR ''+''" by (simp_all add: digit_not_special)
  from assms have tw: "takeWhile is_digit ds = ds" and dw: "dropWhile is_digit ds = []"
    by (simp_all add: list_all_iff)
  have "unsigned_decimal ds = Some (of_int (digits_val ds))"
    unfolding unsigned_decimal_def Let_def tw dw using assms(2) by simp
  with ds c assms trim_digits [OF assms(1)] show ?thesis
    by (simp add: Number_js_def)
qed

lemma split_colon_plain:
  "CHR '':'' \<notin> set ds \<Longrightarrow> split_colon ds = [ds]"
  by (induction ds) auto

lemma split_colon_two:
  "CHR '':'' \<notin> set a \<Longrightarrow> CHR '':'' \<notin> set b \<Longrightarrow> split_colon (a @ '':'' @ b) = [a, b]"
  by (induction a) (auto simp: split_colon_plain)

lemma timeToMinutes_digits:
  assumes "list_all is_digit a" "a \<noteq> []" "list_all is_digit b" "b \<noteq> []"
  shows "timeToMinutes (a @ '':'' @ b) = Num (of_int (digits_val a) * 60 + of_int (digits_val b))"
proof -
  from assms have "CHR '':'' \<notin> set a" "CHR '':'' \<notin> set b"
    by (auto simp: list_all_iff dest: digit_not_special)
  then have "split_colon (a @ '':'' @ b) = [a, b]" by (rule split_colon_two)
  with assms show ?thesis
    by (simp add: timeToMinutes_def Number_js_digits)
qed

lemma minutesToTime_whole:
  assumes "0 \<le> k"
  shows "minutesToTime (Num (of_int k))
           = padStart2 (show_int (k div 60)) @ '':'' @ padStart2 (show_int (k mod 60))"
proof -
  have fl: "\<lfloor>(of_int k :: rat) / 60\<rfloor> = k div 60"
    by (metis floor_divide_of_int_eq of_int_numeral)
  from assms have "0 \<le> (of_int k :: rat) / 60" by simp
  then have tr: "trunc_rat ((of_int k :: rat) / 60) = k div 60"
    by (simp add: trunc_rat_def fl)
  have re: "(of_int k :: rat) - 60 * of_int (k div 60) = of_int (k mod 60)"
    by (simp add: minus_mult_div_eq_mod [symmetric] del: minus_mult_div_eq_mod)
  from assms have nn: "0 \<le> k div 60" "0 \<le> k mod 60" by simp_all
  have str: "show_rat (of_int j) = show_int j" if "0 \<le> j" for j
    using that by (simp add: show_rat_def Let_def)
  show ?thesis
    by (simp add: minutesToTime_def Let_def fl tr re str nn)
qed

lemma timeToMinutes_minutesToTime:
  assumes "whole_minutes m"
  shows "timeToMinutes (minutesToTime m) = m"
proof -
  from assms obtain r where m: "m = Num r" "0 \<le> r" "of_int \<lfloor>r\<rfloor> = r"
    by (cases m) simp_all
  define k where "k = \<lfloor>r\<rfloor>"
  from m(3) have "r = of_int k" unfolding k_def by (rule sym)
  with m(1,2) have k: "0 \<le> k" "m = Num (of_int k)" by simp_all
  then have nn: "0 \<le> k div 60" "0 \<le> k mod 60" by simp_all
  have "timeToMinutes (padStart2 (show_int (k div 60)) @ '':'' @ padStart2 (show_int (k mod 60)))
          = Num (of_int (digits_val (padStart2 (show_int (k div 60)))) * 60
                 + of_int (digits_val (padStart2 (show_int (k mod 60)))))"
    using padStart2_digits [OF nn(1)] padStart2_digits [OF nn(2)]
    by (intro timeToMinutes_digits) simp_all
  then have "timeToMinutes (minutesToTime m)
          = Num (of_int (k div 60) * 60 + of_int (k mod 60))"
    using padStart2_digits [OF nn(1)] padStart2_digits [OF nn(2)]
    by (simp only: k minutesToTime_whole [OF k(1)])
  also have "(of_int (k div 60) * 60 + of_int (k mod 60) :: rat) = of_int k"
  proof -
    have "(of_int k :: rat) = of_int (k div 60 * 60 + k mod 60)" by simp
    also have "\<dots> = of_int (k div 60) * 60 + of_int (k mod 60)"
      by (simp only: of_int_add of_int_mult of_int_numeral)
    finally show ?thesis by (rule sym)
  qed
  finally show ?thesis by (simp add: k)
qed


section \<open>The edit log\<close>

lemma js_eq_sym: "js_eq a b = js_eq b a"
  by (cases a; cases b) auto

lemma js_eq_refl_right: "js_eq a b \<Longrightarrow> js_eq b b"
  by (cases a; cases b) auto

lemma find_by_filter:
  "find P xs = (case filter P xs of [] \<Rightarrow> None | x # _ \<Rightarrow> Some x)"
  by (induction xs) simp_all

lemma findIndex_None_filter: "findIndex P xs = None \<Longrightarrow> filter P xs = []"
  by (induction xs) (auto split: if_splits)



lemma findIndex_Some_nth: "findIndex P xs = Some i \<Longrightarrow> i < length xs \<and> P (xs ! i)"
  by (induction xs arbitrary: i) (auto split: if_splits)


lemma filter_replace_first:
  "findIndex P xs = Some i \<Longrightarrow> P e \<Longrightarrow> filter P (xs[i := e]) = e # tl (filter P xs)"
  by (induction xs arbitrary: i) (auto split: if_splits)

lemma length_filter_replace:
  "i < length xs \<Longrightarrow> Q (xs ! i) = Q e \<Longrightarrow> length (filter Q (xs[i := e])) = length (filter Q xs)"
  by (induction xs arbitrary: i) (auto simp: nth_Cons split: nat.splits)

lemma length_filter_remove:
  "length (filter Q (take i xs @ drop (Suc i) xs)) \<le> length (filter Q xs)"
proof (induction xs arbitrary: i)
  case Nil
  show ?case by simp
next
  case (Cons x xs)
  show ?case
  proof (cases i)
    case 0
    then show ?thesis by simp
  next
    case (Suc j)
    with Cons.IH [of j] show ?thesis by simp
  qed
qed

text \<open>The session a projection looks up and the key an edit call names are the same test.\<close>

lemma projection_key:
  "sessionNumber session = Some n \<Longrightarrow>
   (\<lambda>e. e_planDate e = planDate \<and> e_taskId e = taskId session
         \<and> same_number (sessionNumber session) (e_sessionNumber e))
     = edit_matches planDate (taskId session) n"
  by (rule ext) (auto simp: edit_matches_def same_number_def js_eq_sym)

lemma getEditedSession_by_filter:
  assumes "sessionNumber session = Some n"
  shows "getEditedSession ed session planDate
           = (case edits_for planDate (taskId session) n (sessionTimeEdits ed) of
                [] \<Rightarrow> session
              | edit # _ \<Rightarrow> session\<lparr>startTime := e_newStartTime edit, endTime := e_newEndTime edit\<rparr>)"
  unfolding getEditedSession_def projection_key [OF assms] edits_for_def
  by (simp add: find_by_filter split: list.splits)

lemma findSession_key:
  assumes "findSession ed planDate taskId' n = Some s"
  shows "js_eq n n"
proof (cases "find (\<lambda>p. p_date p = planDate) (studyPlans ed)")
  case None
  with assms show ?thesis by (simp add: findSession_def)
next
  case (Some plan)
  with assms have
    "find (\<lambda>s. taskId s = taskId' \<and> same_number (sessionNumber s) n) (plannedTasks plan) = Some s"
    by (simp add: findSession_def)
  then have "same_number (sessionNumber s) n" by (auto simp: find_Some_iff)
  then show ?thesis
    by (auto simp: same_number_def split: option.splits dest: js_eq_refl_right)
qed

text \<open>What a successful \<open>editSessionTime\<close> leaves in the log.\<close>

lemma editSessionTime_success:
  assumes "editSessionTime clk ed planDate taskId' n newStartTime sessionDuration = (r, ed')"
    and "success r"
  shows "\<exists>edit. edit_matches planDate taskId' n edit
           \<and> e_newStartTime edit = newStartTime
           \<and> e_newEndTime edit = minutesToTime (candidate_end newStartTime sessionDuration)
           \<and> sessionTimeEdits ed'
               = (case findIndex (edit_matches planDate taskId' n) (sessionTimeEdits ed) of
                    Some i \<Rightarrow> (sessionTimeEdits ed)[i := edit]
                  | None \<Rightarrow> sessionTimeEdits ed @ [edit])"
proof -
  let ?chk = "checkTimeConflict ed planDate newStartTime sessionDuration
                (taskId' @ ''-'' @ toString n) True"
  let ?ix = "findIndex (edit_matches planDate taskId' n) (sessionTimeEdits ed)"
  have nc: "\<not> hasConflict ?chk"
  proof
    assume "hasConflict ?chk"
    with assms(1) have "r = \<lparr>success = False, error = conflictsWith ?chk\<rparr>"
      by (auto simp: editSessionTime_def Let_def)
    with assms(2) show False by simp
  qed
  obtain s where s: "findSession ed planDate taskId' n = Some s"
  proof (cases "findSession ed planDate taskId' n")
    case None
    with assms(1) nc have "r = \<lparr>success = False, error = Some ''Session not found''\<rparr>"
      by (auto simp: editSessionTime_def Let_def)
    with assms(2) show ?thesis by simp
  next
    case (Some s)
    with that show ?thesis by blast
  qed
  then have nn: "js_eq n n" by (rule findSession_key)
  define edit where "edit =
     \<lparr>e_id = (case ?ix of Some i \<Rightarrow> e_id (sessionTimeEdits ed ! i)
                        | None \<Rightarrow> ''edit-'' @ toString (now_ms clk)),
      e_planDate = planDate, e_taskId = taskId', e_sessionNumber = n,
      e_originalStartTime = startTime s, e_newStartTime = newStartTime,
      e_newEndTime = minutesToTime (js_add (timeToMinutes newStartTime)
                                      (js_mul sessionDuration (Num 60))),
      e_editedAt = now_iso clk, e_isTemporary = Some True\<rparr>"
  from nc s have "editSessionTime clk ed planDate taskId' n newStartTime sessionDuration
      = (\<lparr>success = True, error = None\<rparr>,
         saveEdits (ed\<lparr>sessionTimeEdits :=
           (case ?ix of Some i \<Rightarrow> (sessionTimeEdits ed)[i := edit]
                      | None \<Rightarrow> sessionTimeEdits ed @ [edit])\<rparr>))"
    unfolding edit_def by (simp add: editSessionTime_def Let_def)
  with assms(1) have "sessionTimeEdits ed'
      = (case ?ix of Some i \<Rightarrow> (sessionTimeEdits ed)[i := edit]
                   | None \<Rightarrow> sessionTimeEdits ed @ [edit])"
    by (auto simp: saveEdits_def)
  moreover have "edit_matches planDate taskId' n edit"
    by (simp add: edit_matches_def edit_def nn)
  moreover have "e_newStartTime edit = newStartTime"
    "e_newEndTime edit = minutesToTime (candidate_end newStartTime sessionDuration)"
    by (simp_all add: edit_def candidate_end_def)
  ultimately show ?thesis by blast
qed

lemma editSessionTime_log:
  assumes "editSessionTime clk ed planDate taskId' n newStartTime sessionDuration = (r, ed')"
    and "success r"
  shows "\<exists>edit. e_newStartTime edit = newStartTime
           \<and> e_newEndTime edit = minutesToTime (candidate_end newStartTime sessionDuration)
           \<and> edits_for planDate taskId' n (sessionTimeEdits ed')
               = edit # tl (edits_for planDate taskId' n (sessionTimeEdits ed))"
proof -
  from editSessionTime_success [OF assms] obtain edit where
    m: "edit_matches planDate taskId' n edit"
    and t: "e_newStartTime edit = newStartTime"
       "e_newEndTime edit = minutesToTime (candidate_end newStartTime sessionDuration)"
    and log: "sessionTimeEdits ed'
               = (case findIndex (edit_matches planDate taskId' n) (sessionTimeEdits ed) of
                    Some i \<Rightarrow> (sessionTimeEdits ed)[i := edit]
                  | None \<Rightarrow> sessionTimeEdits ed @ [edit])"
    by blast
  have "edits_for planDate taskId' n (sessionTimeEdits ed')
          = edit # tl (edits_for planDate taskId' n (sessionTimeEdits ed))"
  proof (cases "findIndex (edit_matches planDate taskId' n) (sessionTimeEdits ed)")
    case None
    with log m show ?thesis
      by (simp add: edits_for_def findIndex_None_filter)
  next
    case (Some i)
    with log m show ?thesis
      by (simp add: edits_for_def filter_replace_first)
  qed
  with t show ?thesis by blast
qed

lemma editSessionTime_succeeds:
  assumes "conflict_reason ed planDate newStartTime sessionDuration (taskId' @ ''-'' @ toString n) = None"
    and "findSession ed planDate taskId' n = Some s"
  shows "success (fst (editSessionTime clk ed planDate taskId' n newStartTime sessionDuration))"
  using assms by (simp add: editSessionTime_def Let_def check_hasConflict)



subsection \<open>One edit per key\<close>

text \<open>
  A log with at most one edit for each key keeps that property under every operation of the
  editor, and the empty log has it. The constructor takes over the log the stored payload
  holds, so a fresh editor has the property when the payload is absent, empty or unparsable,
  or itself holds at most one edit for each key.
\<close>

lemma edit_matches_same:
  "edit_matches d t n x \<Longrightarrow> edit_matches d t n y \<Longrightarrow> edit_matches d' t' k x = edit_matches d' t' k y"
  by (cases "e_sessionNumber x"; cases "e_sessionNumber y"; cases n) (auto simp: edit_matches_def)

lemma edit_matches_key:
  "edit_matches d t n e \<Longrightarrow> edit_matches d' t' k e \<Longrightarrow> edit_matches d' t' k = edit_matches d t n"
  by (rule ext, cases "e_sessionNumber e"; cases n; cases k) (auto simp: edit_matches_def)

lemma one_per_key_empty: "length (edits_for d t k []) \<le> 1"
  by (simp add: edits_for_def)

lemma editSessionTime_failure:
  assumes "editSessionTime clk ed planDate taskId' n newStartTime sessionDuration = (r, ed')"
    and "\<not> success r"
  shows "ed' = ed"
  using assms by (auto simp: editSessionTime_def Let_def split: if_splits option.splits)

lemma one_per_key_edit:
  assumes inv: "\<And>d t k. length (edits_for d t k (sessionTimeEdits ed)) \<le> 1"
    and run: "editSessionTime clk ed planDate taskId' n newStartTime sessionDuration = (r, ed')"
  shows "length (edits_for d t k (sessionTimeEdits ed')) \<le> 1"
proof (cases "success r")
  case False
  with run have "ed' = ed" by (rule editSessionTime_failure)
  with inv show ?thesis by simp
next
  case True
  from editSessionTime_success [OF run True] obtain edit where
    m: "edit_matches planDate taskId' n edit"
    and log: "sessionTimeEdits ed'
               = (case findIndex (edit_matches planDate taskId' n) (sessionTimeEdits ed) of
                    Some i \<Rightarrow> (sessionTimeEdits ed)[i := edit]
                  | None \<Rightarrow> sessionTimeEdits ed @ [edit])"
    by blast
  show ?thesis
  proof (cases "findIndex (edit_matches planDate taskId' n) (sessionTimeEdits ed)")
    case (Some i)
    then have i: "i < length (sessionTimeEdits ed)"
      "edit_matches planDate taskId' n (sessionTimeEdits ed ! i)"
      by (simp_all add: findIndex_Some_nth)
    from i(2) m have "edit_matches d t k (sessionTimeEdits ed ! i) = edit_matches d t k edit"
      by (rule edit_matches_same)
    with i(1) have "length (filter (edit_matches d t k) ((sessionTimeEdits ed)[i := edit]))
                      = length (filter (edit_matches d t k) (sessionTimeEdits ed))"
      by (rule length_filter_replace)
    with log Some inv [of d t k] show ?thesis by (simp add: edits_for_def)
  next
    case None
    then have none: "filter (edit_matches planDate taskId' n) (sessionTimeEdits ed) = []"
      by (rule findIndex_None_filter)
    show ?thesis
    proof (cases "edit_matches d t k edit")
      case True
      with m have "edit_matches d t k = edit_matches planDate taskId' n"
        by (rule edit_matches_key)
      with log None none True show ?thesis by (simp add: edits_for_def)
    next
      case False
      with log None inv [of d t k] show ?thesis by (simp add: edits_for_def)
    qed
  qed
qed

lemma one_per_key_remove:
  assumes "length (edits_for d t k (sessionTimeEdits ed)) \<le> 1"
  shows "length (edits_for d t k (sessionTimeEdits (snd (removeEdit ed planDate taskId' n)))) \<le> 1"
proof (cases "findIndex (edit_matches planDate taskId' n) (sessionTimeEdits ed)")
  case None
  with assms show ?thesis by (simp add: removeEdit_def)
next
  case (Some i)
  have "length (filter (edit_matches d t k)
                  (take i (sessionTimeEdits ed) @ drop (Suc i) (sessionTimeEdits ed)))
          \<le> length (filter (edit_matches d t k) (sessionTimeEdits ed))"
    by (rule length_filter_remove)
  with assms Some show ?thesis
    by (simp add: removeEdit_def saveEdits_def edits_for_def del: filter_append)
qed

lemma one_per_key_clear:
  assumes "length (edits_for d t k (sessionTimeEdits ed)) \<le> 1"
  shows "length (edits_for d t k (sessionTimeEdits (clearTemporaryEdits ed))) \<le> 1"
proof -
  have "filter (edit_matches d t k) (filter (\<lambda>edit. e_isTemporary edit \<noteq> Some True) (sessionTimeEdits ed))
          = filter (\<lambda>edit. e_isTemporary edit \<noteq> Some True) (filter (edit_matches d t k) (sessionTimeEdits ed))"
    by (simp add: conj_commute)
  moreover have "length (filter (\<lambda>edit. e_isTemporary edit \<noteq> Some True)
                   (filter (edit_matches d t k) (sessionTimeEdits ed)))
                   \<le> length (filter (edit_matches d t k) (sessionTimeEdits ed))"
    by (rule length_filter_le)
  ultimately show ?thesis using assms
    by (simp add: clearTemporaryEdits_def saveEdits_def edits_for_def)
qed

lemma new_editor_log:
  assumes "new_SessionTimeEditor store day plans commitments stg = Inr ed"
  shows "sessionTimeEdits ed = (case store of Some (Json edits) \<Rightarrow> edits | _ \<Rightarrow> [])"
  using assms
  by (auto simp: new_SessionTimeEditor_def Let_def JSON_parse_def truthy_def
           split: option.splits payload.splits if_splits)

lemma one_per_key_new:
  assumes "new_SessionTimeEditor store day plans commitments stg = Inr ed"
    and "\<And>edits. store = Some (Json edits) \<Longrightarrow> length (edits_for d t k edits) \<le> 1"
  shows "length (edits_for d t k (sessionTimeEdits ed)) \<le> 1"
proof (cases store)
  case None
  with new_editor_log [OF assms(1)] show ?thesis by (simp add: edits_for_def)
next
  case (Some p)
  show ?thesis
  proof (cases p)
    case (Json edits)
    with Some new_editor_log [OF assms(1)] assms(2) [of edits] show ?thesis by simp
  next
    case (Unparsable raw)
    with Some new_editor_log [OF assms(1)] show ?thesis by (simp add: edits_for_def)
  qed
qed

section \<open>Editing, projecting and reverting\<close>

text \<open>
  C3. When \<open>editSessionTime\<close> succeeds for the key of a session, \<open>getEditedSession\<close>
  on that session and date returns the session with \<open>startTime\<close> the new start and
  \<open>endTime\<close> the time string of the new start plus the duration in minutes; when that sum
  is a whole, non-negative number of minutes, the end read back as minutes is the start
  read back as minutes plus sixty times the duration in hours.
\<close>

theorem edit_then_project:
  assumes "editSessionTime clk ed planDate (taskId session) n newStartTime sessionDuration = (r, ed')"
    and "success r"
    and "sessionNumber session = Some n"
  shows "getEditedSession ed' session planDate
           = session\<lparr>startTime := newStartTime,
                      endTime := minutesToTime (candidate_end newStartTime sessionDuration)\<rparr>
         \<and> (whole_minutes (candidate_end newStartTime sessionDuration) \<longrightarrow>
              timeToMinutes (endTime (getEditedSession ed' session planDate))
                = js_add (timeToMinutes (startTime (getEditedSession ed' session planDate)))
                         (js_mul sessionDuration (Num 60)))"
proof -
  from editSessionTime_log [OF assms(1,2)] obtain edit where
    "e_newStartTime edit = newStartTime"
    "e_newEndTime edit = minutesToTime (candidate_end newStartTime sessionDuration)"
    "edits_for planDate (taskId session) n (sessionTimeEdits ed')
       = edit # tl (edits_for planDate (taskId session) n (sessionTimeEdits ed))"
    by blast
  then have proj: "getEditedSession ed' session planDate
           = session\<lparr>startTime := newStartTime,
                      endTime := minutesToTime (candidate_end newStartTime sessionDuration)\<rparr>"
    by (simp add: getEditedSession_by_filter [OF assms(3)])
  have "timeToMinutes (minutesToTime (candidate_end newStartTime sessionDuration))
          = js_add (timeToMinutes newStartTime) (js_mul sessionDuration (Num 60))"
    if "whole_minutes (candidate_end newStartTime sessionDuration)"
    using timeToMinutes_minutesToTime [OF that] by (simp add: candidate_end_def)
  with proj show ?thesis by simp
qed

theorem edit_then_project_witness:
  "success (fst (editSessionTime demo_clock demo_editor ''2024-01-10'' ''T1'' (Num 1) ''11:00'' (Num 1)))
   \<and> getEditedSession
        (snd (editSessionTime demo_clock demo_editor ''2024-01-10'' ''T1'' (Num 1) ''11:00'' (Num 1)))
        session_T1 ''2024-01-10''
       = session_T1\<lparr>startTime := ''11:00'', endTime := ''12:00''\<rparr>
   \<and> timeToMinutes ''12:00'' = js_add (timeToMinutes ''11:00'') (js_mul (Num 1) (Num 60))"
proof -
  let ?run = "editSessionTime demo_clock demo_editor ''2024-01-10'' ''T1'' (Num 1) ''11:00'' (Num 1)"
  have tid: "taskId session_T1 = ''T1''" and num: "sessionNumber session_T1 = Some (Num 1)"
    by (simp_all add: session_T1_def)
  have free: "conflict_reason demo_editor ''2024-01-10'' ''11:00'' (Num 1)
                (''T1'' @ ''-'' @ toString (Num 1)) = None"
    by code_simp
  have found: "findSession demo_editor ''2024-01-10'' ''T1'' (Num 1) = Some session_T1"
    by code_simp
  have ok: "success (fst ?run)"
    using free found by (rule editSessionTime_succeeds)
  have run: "editSessionTime demo_clock demo_editor ''2024-01-10'' (taskId session_T1) (Num 1)
               ''11:00'' (Num 1) = (fst ?run, snd ?run)"
    by (simp add: tid)
  have e: "candidate_end ''11:00'' (Num 1) = Num 720"
    by code_simp
  have w: "whole_minutes (candidate_end ''11:00'' (Num 1))"
    by (simp add: e)
  have t: "minutesToTime (Num 720) = ''12:00''"
    by code_simp
  note project = edit_then_project [OF run ok num]
  from project
  have p: "getEditedSession (snd ?run) session_T1 ''2024-01-10''
             = session_T1\<lparr>startTime := ''11:00'', endTime := ''12:00''\<rparr>"
    by (simp add: e t)
  from project w
  have q: "timeToMinutes (endTime (getEditedSession (snd ?run) session_T1 ''2024-01-10''))
              = js_add (timeToMinutes (startTime (getEditedSession (snd ?run) session_T1
                                                    ''2024-01-10'')))
                       (js_mul (Num 1) (Num 60))"
    by blast
  have "timeToMinutes ''12:00'' = js_add (timeToMinutes ''11:00'') (js_mul (Num 1) (Num 60))"
    using q unfolding p by simp
  with ok p show ?thesis by simp
qed





section \<open>Suggestions by kind of conflict\<close>

text \<open>
  C6, as the code has it. A work-day conflict carries an empty suggestion list. A
  study-window conflict, like a session or commitment overlap, carries the generated
  suggestions when suggestions are asked for (the default) and an empty list otherwise.
  Without a conflict there is no suggestion list.
\<close>

theorem suggestions_by_conflict_kind:
  "suggestedTimes (checkTimeConflict ed date candidateStart durationHours excludeSessionKey
                     includeSuggestions)
     = (if outside_window (settings ed) candidateStart durationHours
        then Some (if includeSuggestions
                   then generateSuggestedTimes ed date durationHours excludeSessionKey else [])
        else if not_work_day ed date then Some []
        else if conflict_reason ed date candidateStart durationHours excludeSessionKey \<noteq> None
        then Some (if includeSuggestions
                   then generateSuggestedTimes ed date durationHours excludeSessionKey else [])
        else None)"
proof -
  let ?sugg = "if includeSuggestions
               then generateSuggestedTimes ed date durationHours excludeSessionKey else []"
  have "suggestedTimes (checkTimeConflict ed date candidateStart durationHours excludeSessionKey
                          includeSuggestions)
          = suggestedTimes (checkTimeConflict_body ed date candidateStart durationHours
                              excludeSessionKey ?sugg)"
    by (simp only: checkTimeConflict_def)
  also have "\<dots> = (if outside_window (settings ed) candidateStart durationHours then Some ?sugg
                     else if not_work_day ed date then Some []
                     else if conflict_reason ed date candidateStart durationHours
                               excludeSessionKey \<noteq> None
                     then Some ?sugg else None)"
    by (rule body_suggestedTimes)
  finally show ?thesis .
qed

theorem suggestions_by_conflict_kind_witness:
  "suggestedTimes (checkTimeConflict demo_editor ''2024-01-13'' ''09:00'' (Num 1) ''T1-1'' True)
     = Some []
   \<and> suggestedTimes (checkTimeConflict demo_editor ''2024-01-10'' ''07:00'' (Num 1) ''T1-1'' False)
     = Some []"
proof -
  have w1: "\<not> outside_window (settings demo_editor) ''09:00'' (Num 1)"
    by code_simp
  have d1: "not_work_day demo_editor ''2024-01-13''"
    by code_simp
  have w2: "outside_window (settings demo_editor) ''07:00'' (Num 1)"
    by code_simp
  from suggestions_by_conflict_kind [of demo_editor "''2024-01-13''" "''09:00''" "Num 1" "''T1-1''" True]
       suggestions_by_conflict_kind [of demo_editor "''2024-01-10''" "''07:00''" "Num 1" "''T1-1''" False]
       w1 d1 w2
  show ?thesis by simp
qed

text \<open>
  C6 as the specification words it fails: a start before the study window is answered with
  the window reason and three suggested times.
\<close>

theorem window_conflict_with_suggestions:
  "outside_window (settings demo_editor) ''07:00'' (Num 1)
   \<and> conflictsWith (checkTimeConflict demo_editor ''2024-01-10'' ''07:00'' (Num 1) ''T1-1'' True)
       = Some ''Outside study window (8:00 - 20:00)''
   \<and> suggestedTimes (checkTimeConflict demo_editor ''2024-01-10'' ''07:00'' (Num 1) ''T1-1'' True)
       = Some [''08:00'', ''08:30'', ''09:00'']"
proof -
  have w: "outside_window (settings demo_editor) ''07:00'' (Num 1)"
    by code_simp
  have r: "conflict_reason demo_editor ''2024-01-10'' ''07:00'' (Num 1) ''T1-1''
             = Some ''Outside study window (8:00 - 20:00)''"
    by code_simp
  have c: "conflictsWith (checkTimeConflict demo_editor ''2024-01-10'' ''07:00'' (Num 1) ''T1-1'' True)
             = Some ''Outside study window (8:00 - 20:00)''"
    by (simp add: check_conflictsWith r)
  have s: "suggestedTimes (checkTimeConflict demo_editor ''2024-01-10'' ''07:00'' (Num 1) ''T1-1'' True)
             = Some [''08:00'', ''08:30'', ''09:00'']"
    using w by (simp add: checkTimeConflict_def body_suggestedTimes demo_suggestions)
  from w c s show ?thesis by simp
qed

section \<open>The commitment resolver\<close>

lemma apply_modification_id: "c_id (apply_modification date c) = c_id c"
  by (simp add: apply_modification_def split: option.splits)

text \<open>
  C5, as the code has it. For a commitment included on a date with an entry in
  \<open>modifiedOccurrences\<close> for that date, the resolver returns the commitment overlaid with
  the entry: the start time, the end time and the title are each the entry's field when that
  field is present and not the empty string, and the commitment's own value otherwise.
\<close>

theorem modification_overlay:
  assumes "commitment \<in> set (fixedCommitments ed)"
    and "applies_on (getDay ed date) date commitment"
    and "map_of (modifiedOccurrences commitment) date = Some m"
  shows "apply_modification date commitment \<in> set (getCommitmentsForDate ed date)
         \<and> c_startTime (apply_modification date commitment)
             = (case m_startTime m of
                  None \<Rightarrow> c_startTime commitment
                | Some v \<Rightarrow> if v = [] then c_startTime commitment else v)
         \<and> c_endTime (apply_modification date commitment)
             = (case m_endTime m of
                  None \<Rightarrow> c_endTime commitment
                | Some v \<Rightarrow> if v = [] then c_endTime commitment else v)
         \<and> c_title (apply_modification date commitment)
             = (case m_title m of
                  None \<Rightarrow> c_title commitment
                | Some v \<Rightarrow> if v = [] then c_title commitment else v)"
proof -
  from assms(1,2) have "apply_modification date commitment \<in> set (getCommitmentsForDate ed date)"
    by (simp add: getCommitmentsForDate_def Let_def)
  with assms(3) show ?thesis
    by (simp add: apply_modification_def or_else_def)
qed

theorem modification_overlay_witness:
  "apply_modification ''2024-01-17'' lecture \<in> set (getCommitmentsForDate demo_editor ''2024-01-17'')
   \<and> c_startTime (apply_modification ''2024-01-17'' lecture) = ''16:00''
   \<and> c_endTime (apply_modification ''2024-01-17'' lecture) = ''17:00''
   \<and> c_title (apply_modification ''2024-01-17'' lecture) = ''Lecture''"
proof -
  have a: "lecture \<in> set (fixedCommitments demo_editor)"
    by (simp add: demo_editor_def)
  have b: "applies_on (getDay demo_editor ''2024-01-17'') ''2024-01-17'' lecture"
    by code_simp
  have c: "map_of (modifiedOccurrences lecture) ''2024-01-17''
             = Some \<lparr>m_startTime = Some ''16:00'', m_endTime = Some ''17:00'',
                      m_title = None, m_type = Some work\<rparr>"
    by (simp add: lecture_def)
  have t: "c_title lecture = ''Lecture''"
    by (simp add: lecture_def)
  from modification_overlay [OF a b c] show ?thesis
    by (simp add: t)
qed

text \<open>
  C5 as the specification words it fails on the type and on an empty field: the entry for
  2024-01-17 names the type \<open>work\<close> and the Lecture stays a class; the entry for
  2024-01-24 holds the title field, empty, and the title stays \<open>Lecture\<close>.
\<close>

theorem modification_type_and_empty_title_kept:
  "map_option m_type (map_of (modifiedOccurrences lecture) ''2024-01-17'') = Some (Some work)
   \<and> map c_type (getCommitmentsForDate demo_editor ''2024-01-17'') = [class_c, other]
   \<and> map_option m_title (map_of (modifiedOccurrences lecture) ''2024-01-24'') = Some (Some [])
   \<and> map c_title (getCommitmentsForDate demo_editor ''2024-01-24'') = [''Lecture'', ''Gym'']"
  by code_simp

text \<open>
  C8, as the code has it. The resolver keeps the order of the commitment list it was given:
  the commitments it returns are, in order, those of the list that apply on the date. It
  does not sort.
\<close>

theorem resolver_keeps_input_order:
  "map c_id (getCommitmentsForDate ed date)
     = map c_id (filter (applies_on (getDay ed date) date) (fixedCommitments ed))
   \<and> subseq (map c_id (getCommitmentsForDate ed date)) (map c_id (fixedCommitments ed))"
proof -
  have "map c_id (getCommitmentsForDate ed date)
          = map c_id (filter (applies_on (getDay ed date) date) (fixedCommitments ed))"
    by (simp add: getCommitmentsForDate_def Let_def apply_modification_id comp_def)
  moreover have "subseq (map c_id (filter (applies_on (getDay ed date) date) (fixedCommitments ed)))
                   (map c_id (fixedCommitments ed))"
    by (rule subseq_map) (rule subseq_filter_left)
  ultimately show ?thesis by simp
qed

theorem resolver_keeps_input_order_witness:
  "map c_id (getCommitmentsForDate demo_editor ''2024-01-10'') = [''c1'', ''c2'']"
proof -
  have "map c_id (filter (applies_on (getDay demo_editor ''2024-01-10'') ''2024-01-10'')
                    (fixedCommitments demo_editor)) = [''c1'', ''c2'']"
    by code_simp
  with resolver_keeps_input_order [of demo_editor "''2024-01-10''"] show ?thesis by simp
qed

text \<open>
  C8 as the specification words it fails: with the Lecture (14:00) listed before the Gym
  (10:00) the resolver returns them in that order, which is not by start time.
\<close>

theorem resolver_not_sorted:
  "map c_startTime (getCommitmentsForDate demo_editor ''2024-01-10'') = [''14:00'', ''10:00'']
   \<and> \<not> sorted_by_start (getCommitmentsForDate demo_editor ''2024-01-10'')"
  by code_simp


end
